theory Spec2Isabelle
  imports Complex_Main
begin

section \<open>Numbers and small helpers\<close>

text \<open>
  JavaScript numbers are modelled by \<^typ>\<open>real\<close>: the idealised arithmetic of the
  program, without rounding error, infinities or NaN. Where the source divides by a
  quantity that can be zero, the definitions below write the case out, since HOL's
  \<open>x / 0 = 0\<close> is not what JavaScript computes.
\<close>

record point =
  x :: real
  y :: real

record canvas =
  width :: real
  height :: real

text \<open>\<^verbatim>\<open>Math.hypot(a, b)\<close>\<close>

definition hypot :: "real \<Rightarrow> real \<Rightarrow> real" where
  "hypot a b = sqrt (a * a + b * b)"

section \<open>Pan constraint\<close>

text \<open>
  \<^verbatim>\<open>_constrainPan(panX, panY, scale)\<close> reads \<^verbatim>\<open>this.dom.movieCanvas\<close>; the element is
  a parameter here, \<open>None\<close> when it is missing.
\<close>

definition constrainPan :: "canvas option \<Rightarrow> real \<Rightarrow> real \<Rightarrow> real \<Rightarrow> point" where
  "constrainPan movieCanvas panX panY scale =
     (case movieCanvas of
        None \<Rightarrow> \<lparr>x = 0, y = 0\<rparr>
      | Some cv \<Rightarrow>
          if width cv = 0 then \<lparr>x = 0, y = 0\<rparr>
          else
            let canvasWidth = width cv; canvasHeight = height cv in
            if scale < 1 then
              let centeredX = (canvasWidth - canvasWidth * scale) / 2;
                  centeredY = (canvasHeight - canvasHeight * scale) / 2
              in \<lparr>x = centeredX, y = centeredY\<rparr>
            else
              let maxXOffset = canvasWidth * scale - canvasWidth;
                  maxYOffset = canvasHeight * scale - canvasHeight;
                  minX = - maxXOffset;
                  minY = - maxYOffset;
                  maxX = 0;
                  maxY = 0;
                  constrainedX = max minX (min panX maxX);
                  constrainedY = max minY (min panY maxY)
              in \<lparr>x = constrainedX, y = constrainedY\<rparr>)"

section \<open>Data model\<close>

text \<open>
  A layer is a JavaScript object of type \<^verbatim>\<open>'image'\<close> or \<^verbatim>\<open>'text'\<close>. The record has the
  fields the compositor, the geometry and the reducers read or write; \<open>x\<close> and \<open>y\<close>
  come from \<open>point\<close>. Fields that may be \<^verbatim>\<open>undefined\<close> (or \<^verbatim>\<open>null\<close>) in the
  source are options. The fields of the shadow and border sub-objects carry a prefix, and
  \<open>layer_id\<close>, \<open>layer_type\<close>, \<open>layer_size\<close>, \<open>layer_text\<close> stand for \<^verbatim>\<open>id\<close>,
  \<^verbatim>\<open>type\<close>, \<^verbatim>\<open>size\<close>, \<^verbatim>\<open>text\<close>; \<open>textWidth\<close> and \<open>textHeight\<close> are the
  \<^verbatim>\<open>width\<close> and \<^verbatim>\<open>height\<close> of a text layer.
\<close>

record shadow =
  sh_enabled :: bool
  sh_color :: string
  sh_blur :: real
  sh_offsetX :: real
  sh_offsetY :: real

record border =
  bd_enabled :: bool
  bd_color :: string
  bd_width :: real

text \<open>
  The text of a layer is a JavaScript string: it is the list of its UTF-16 code units,
  so that every character that \<^verbatim>\<open>trim()\<close> removes can be told apart.
\<close>

type_synonym js_text = "nat list"

record contentFrame =
  cf_x :: real
  cf_y :: real
  cf_width :: real
  cf_height :: real
  isEmpty :: bool

text \<open>
  A mipmap level is a canvas with pixels. \<open>pixelAlpha px py\<close> is the alpha byte that
  \<^verbatim>\<open>getImageData(px, py, 1, 1).data[3]\<close> reads, \<open>None\<close> when the read throws.
\<close>

record raster = canvas +
  pixelAlpha :: "int \<Rightarrow> int \<Rightarrow> nat option"

text \<open>What \<open>updateLayerCache\<close> leaves on the cache canvas: the filter stack in the order
  of the filter string, the alpha, the translation and the draw calls.\<close>

datatype filter_fn =
    DropShadow real real real string
  | Brightness real
  | Saturate real
  | Contrast real

record text_style =
  ts_font :: string
  ts_fontSize :: real
  ts_fillStyle :: string
  ts_stroke :: "(string \<times> real) option"

datatype draw_call =
    DrawImage raster real real real real
  | StrokeText text_style js_text real real
  | FillText text_style js_text real real

record cache_canvas = canvas +
  translate :: point
  filters :: "filter_fn list"
  globalAlpha :: real
  drawn :: "draw_call list"

record cache =
  cache_canvas :: "cache_canvas option"
  isValid :: bool

record layer = point +
  layer_id :: string
  layer_type :: string
  layer_size :: real
  rot :: real
  flipX :: bool
  opacity :: real
  brightness :: real
  saturation :: real
  contrast :: "real option"
  shadow :: shadow
  border :: border
  isLocked :: bool
  createdAt :: real
  restored :: bool
  cache :: "cache option"
  propX :: real
  propY :: real
  propSize :: real
  alignX :: string
  alignY :: string
  mipmaps :: "raster list option"
  contentFrame :: "contentFrame option"
  layer_text :: js_text
  font :: string
  fontSize :: real
  color :: string
  strokeColor :: string
  strokeWidth :: real
  textWidth :: real
  textHeight :: real

text \<open>The background element, with the natural size the source reads.\<close>

record image =
  naturalWidth :: real
  naturalHeight :: real

record canvasState =
  layers :: "layer list"
  backgroundElement :: "image option"
  backgroundType :: string
  backgroundHash :: "string option"
  bgBrightness :: real
  bgSaturation :: real
  projectRotation :: int
  backgroundFlipX :: bool

section \<open>Reducers\<close>

text \<open>
  An action is an object with a \<^verbatim>\<open>type\<close> string and a payload; it becomes a datatype
  with one constructor for each action type. A payload entry \<^verbatim>\<open>[property]: value\<close> is a
  value of \<open>layer_prop\<close>, \<open>shadow_prop\<close>, \<open>border_prop\<close> or \<open>bg_prop\<close>, which names
  the property and carries a value of its type. The actions
  \<^verbatim>\<open>LAYER_REFIT_AND_TRANSFORM\<close> and \<^verbatim>\<open>LAYER_OPTIMIZATION_COMPLETE\<close>, which replace the
  raster assets of a layer, are not part of \<open>action\<close>; \<open>OTHER\<close> is any action type that
  neither reducer has a case for.
\<close>

datatype layer_prop =
    Set_x real | Set_y real | Set_size real | Set_rot real | Set_flipX bool
  | Set_opacity real | Set_brightness real | Set_saturation real | Set_contrast real
  | Set_isLocked bool | Set_propX real | Set_propY real | Set_propSize real
  | Set_alignX string | Set_alignY string
  | Set_mipmaps "raster list" | Set_contentFrame contentFrame | Set_cache cache
  | Set_text js_text | Set_font string | Set_fontSize real | Set_color string
  | Set_strokeColor string | Set_strokeWidth real

datatype shadow_prop =
    Shadow_enabled bool | Shadow_color string | Shadow_blur real
  | Shadow_offsetX real | Shadow_offsetY real

datatype border_prop = Border_enabled bool | Border_color string | Border_width real

datatype bg_prop = Bg_brightness real | Bg_saturation real

datatype action =
    LAYER_ADDED layer
  | LAYER_DELETED string
  | LAYER_REORDERED string int
  | LAYER_PROPERTY_PREVIEW_CHANGED string layer_prop
  | LAYER_SHADOW_PREVIEW_CHANGED string shadow_prop
  | LAYER_BORDER_PREVIEW_CHANGED string border_prop
  | LAYER_PROPERTY_CHANGED string layer_prop
  | LAYER_SHADOW_CHANGED string shadow_prop
  | LAYER_BORDER_CHANGED string border_prop
  | LAYER_TRANSFORMED string "layer_prop list"
  | INVALIDATE_LAYER_CACHE string
  | BACKGROUND_FILTER_PREVIEW_CHANGED bg_prop
  | BACKGROUND_FILTER_CHANGED bg_prop
  | BACKGROUND_CHANGED "string option"
  | PROJECT_ROTATED
  | TOGGLE_BACKGROUND_FLIP
  | RESET_PROJECT_ROTATION
  | OTHER string

text \<open>\<^verbatim>\<open>{ ...l, [property]: value }\<close>\<close>

fun assign :: "layer_prop \<Rightarrow> layer \<Rightarrow> layer" where
  "assign (Set_x v) l = l\<lparr>x := v\<rparr>"
| "assign (Set_y v) l = l\<lparr>y := v\<rparr>"
| "assign (Set_size v) l = l\<lparr>layer_size := v\<rparr>"
| "assign (Set_rot v) l = l\<lparr>rot := v\<rparr>"
| "assign (Set_flipX v) l = l\<lparr>flipX := v\<rparr>"
| "assign (Set_opacity v) l = l\<lparr>opacity := v\<rparr>"
| "assign (Set_brightness v) l = l\<lparr>brightness := v\<rparr>"
| "assign (Set_saturation v) l = l\<lparr>saturation := v\<rparr>"
| "assign (Set_contrast v) l = l\<lparr>contrast := Some v\<rparr>"
| "assign (Set_isLocked v) l = l\<lparr>isLocked := v\<rparr>"
| "assign (Set_propX v) l = l\<lparr>propX := v\<rparr>"
| "assign (Set_propY v) l = l\<lparr>propY := v\<rparr>"
| "assign (Set_propSize v) l = l\<lparr>propSize := v\<rparr>"
| "assign (Set_alignX v) l = l\<lparr>alignX := v\<rparr>"
| "assign (Set_alignY v) l = l\<lparr>alignY := v\<rparr>"
| "assign (Set_mipmaps v) l = l\<lparr>mipmaps := Some v\<rparr>"
| "assign (Set_contentFrame v) l = l\<lparr>contentFrame := Some v\<rparr>"
| "assign (Set_cache v) l = l\<lparr>cache := Some v\<rparr>"
| "assign (Set_text v) l = l\<lparr>layer_text := v\<rparr>"
| "assign (Set_font v) l = l\<lparr>font := v\<rparr>"
| "assign (Set_fontSize v) l = l\<lparr>fontSize := v\<rparr>"
| "assign (Set_color v) l = l\<lparr>color := v\<rparr>"
| "assign (Set_strokeColor v) l = l\<lparr>strokeColor := v\<rparr>"
| "assign (Set_strokeWidth v) l = l\<lparr>strokeWidth := v\<rparr>"

text \<open>\<^verbatim>\<open>{ ...l.shadow, [property]: value }\<close> and \<^verbatim>\<open>{ ...l.border, [property]: value }\<close>\<close>

fun assignShadow :: "shadow_prop \<Rightarrow> shadow \<Rightarrow> shadow" where
  "assignShadow (Shadow_enabled v) s = s\<lparr>sh_enabled := v\<rparr>"
| "assignShadow (Shadow_color v) s = s\<lparr>sh_color := v\<rparr>"
| "assignShadow (Shadow_blur v) s = s\<lparr>sh_blur := v\<rparr>"
| "assignShadow (Shadow_offsetX v) s = s\<lparr>sh_offsetX := v\<rparr>"
| "assignShadow (Shadow_offsetY v) s = s\<lparr>sh_offsetY := v\<rparr>"

fun assignBorder :: "border_prop \<Rightarrow> border \<Rightarrow> border" where
  "assignBorder (Border_enabled v) b = b\<lparr>bd_enabled := v\<rparr>"
| "assignBorder (Border_color v) b = b\<lparr>bd_color := v\<rparr>"
| "assignBorder (Border_width v) b = b\<lparr>bd_width := v\<rparr>"

text \<open>\<^verbatim>\<open>{ ...l.cache, isValid: false }\<close>: a missing cache spreads to nothing, so the new
  object has no canvas.\<close>

definition newCache :: "layer \<Rightarrow> cache" where
  "newCache l =
     (case cache l of
        None \<Rightarrow> \<lparr>cache_canvas = None, isValid = False\<rparr>
      | Some c \<Rightarrow> c\<lparr>isValid := False\<rparr>)"

text \<open>\<^verbatim>\<open>layers.findIndex(l => l.id === layerId)\<close>, \<open>None\<close> for \<open>-1\<close>.\<close>

fun findIndex :: "string \<Rightarrow> layer list \<Rightarrow> nat option" where
  "findIndex layerId [] = None"
| "findIndex layerId (l # ls) =
     (if layer_id l = layerId then Some 0
      else case findIndex layerId ls of None \<Rightarrow> None | Some i \<Rightarrow> Some (Suc i))"

text \<open>\<^verbatim>\<open>const [item] = a.splice(i, 1); a.splice(j, 0, item)\<close> for indices in range.\<close>

definition moveItem :: "nat \<Rightarrow> nat \<Rightarrow> 'a list \<Rightarrow> 'a list" where
  "moveItem i j xs =
     (let item = xs ! i; rest = take i xs @ drop (Suc i) xs
      in take j rest @ item # drop j rest)"

fun layersReducer :: "layer list \<Rightarrow> action \<Rightarrow> layer list" where
  "layersReducer ls (LAYER_ADDED newLayer) = newLayer # ls"
| "layersReducer ls (LAYER_DELETED layerId) = filter (\<lambda>l. layer_id l \<noteq> layerId) ls"
| "layersReducer ls (LAYER_REORDERED layerId delta) =
     (case findIndex layerId ls of
        None \<Rightarrow> ls
      | Some i \<Rightarrow>
          let j = int i + delta in
          if j < 0 \<or> j \<ge> int (length ls) then ls
          else moveItem i (nat j) ls)"
| "layersReducer ls (LAYER_PROPERTY_PREVIEW_CHANGED layerId p) =
     map (\<lambda>l. if layer_id l \<noteq> layerId then l
               else (assign p l)\<lparr>cache := Some (newCache l)\<rparr>) ls"
| "layersReducer ls (LAYER_SHADOW_PREVIEW_CHANGED layerId p) =
     map (\<lambda>l. if layer_id l \<noteq> layerId then l
               else l\<lparr>shadow := assignShadow p (shadow l), cache := Some (newCache l)\<rparr>) ls"
| "layersReducer ls (LAYER_BORDER_PREVIEW_CHANGED layerId p) =
     map (\<lambda>l. if layer_id l \<noteq> layerId then l
               else l\<lparr>border := assignBorder p (border l), cache := Some (newCache l)\<rparr>) ls"
| "layersReducer ls (LAYER_PROPERTY_CHANGED layerId p) =
     map (\<lambda>l. if layer_id l \<noteq> layerId then l
               else (assign p l)\<lparr>cache := Some (newCache l)\<rparr>) ls"
| "layersReducer ls (LAYER_SHADOW_CHANGED layerId p) =
     map (\<lambda>l. if layer_id l \<noteq> layerId then l
               else l\<lparr>shadow := assignShadow p (shadow l), cache := Some (newCache l)\<rparr>) ls"
| "layersReducer ls (LAYER_BORDER_CHANGED layerId p) =
     map (\<lambda>l. if layer_id l \<noteq> layerId then l
               else l\<lparr>border := assignBorder p (border l), cache := Some (newCache l)\<rparr>) ls"
| "layersReducer ls (LAYER_TRANSFORMED layerId transformProps) =
     map (\<lambda>l. if layer_id l \<noteq> layerId then l
               else fold assign transformProps l) ls"
| "layersReducer ls (INVALIDATE_LAYER_CACHE layerId) =
     map (\<lambda>l. if layer_id l \<noteq> layerId then l else l\<lparr>cache := Some (newCache l)\<rparr>) ls"
| "layersReducer ls _ = ls"

text \<open>The remainder operator \<^verbatim>\<open>%\<close> on integers: the sign follows the dividend.\<close>

definition js_rem :: "int \<Rightarrow> int \<Rightarrow> int" where
  "js_rem a b = sgn a * (\<bar>a\<bar> mod \<bar>b\<bar>)"

text \<open>
  \<open>canvasStateReducer\<close> first runs \<open>layersReducer\<close>. Its default case returns the same
  state object when the layers array is the same object, and a copy with the new array
  otherwise: as values, both are the state with the new layers. \<open>projectRotation\<close> is a
  number in every state the program builds, so \<^verbatim>\<open>projectRotation || 0\<close> is its value.
\<close>

fun canvasStateReducer :: "canvasState \<Rightarrow> action \<Rightarrow> canvasState" where
  "canvasStateReducer cs (BACKGROUND_FILTER_PREVIEW_CHANGED p) =
     (let newLayers = layersReducer (layers cs) (BACKGROUND_FILTER_PREVIEW_CHANGED p) in
      case p of Bg_brightness v \<Rightarrow> cs\<lparr>layers := newLayers, bgBrightness := v\<rparr>
              | Bg_saturation v \<Rightarrow> cs\<lparr>layers := newLayers, bgSaturation := v\<rparr>)"
| "canvasStateReducer cs (BACKGROUND_FILTER_CHANGED p) =
     (let newLayers = layersReducer (layers cs) (BACKGROUND_FILTER_CHANGED p) in
      case p of Bg_brightness v \<Rightarrow> cs\<lparr>layers := newLayers, bgBrightness := v\<rparr>
              | Bg_saturation v \<Rightarrow> cs\<lparr>layers := newLayers, bgSaturation := v\<rparr>)"
| "canvasStateReducer cs (BACKGROUND_CHANGED hash) =
     (let newLayers = layersReducer (layers cs) (BACKGROUND_CHANGED hash) in
      cs\<lparr>layers := newLayers, backgroundHash := hash, bgBrightness := 1,
         bgSaturation := 1, projectRotation := 0, backgroundFlipX := False\<rparr>)"
| "canvasStateReducer cs PROJECT_ROTATED =
     (let newLayers = layersReducer (layers cs) PROJECT_ROTATED;
          newRotation = js_rem (projectRotation cs + 90) 360
      in cs\<lparr>layers := newLayers, projectRotation := newRotation\<rparr>)"
| "canvasStateReducer cs TOGGLE_BACKGROUND_FLIP =
     (let newLayers = layersReducer (layers cs) TOGGLE_BACKGROUND_FLIP in
      cs\<lparr>layers := newLayers, backgroundFlipX := \<not> backgroundFlipX cs\<rparr>)"
| "canvasStateReducer cs RESET_PROJECT_ROTATION =
     (let newLayers = layersReducer (layers cs) RESET_PROJECT_ROTATION in
      cs\<lparr>layers := newLayers, projectRotation := 0\<rparr>)"
| "canvasStateReducer cs a = cs\<lparr>layers := layersReducer (layers cs) a\<rparr>"

section \<open>Mipmap chain\<close>

text \<open>
  \<open>generateMipmaps sourceWidth sourceHeight maxDimension\<close> gives the sizes
  \<open>(width, height)\<close> of the canvases that \<^verbatim>\<open>generateMipmaps(sourceImage, maxDimension)\<close>
  pushes, in order; the pixels drawn on them are not modelled. The source size is a pair
  of integers that are not negative, and \<open>maxDimension\<close> is positive (2048 at every
  call). \<^verbatim>\<open>maxDimension / 0\<close> is \<^verbatim>\<open>Infinity\<close>, which \<^verbatim>\<open>Math.min\<close> with 1 discards.
\<close>

function mipLoop :: "int \<Rightarrow> int \<Rightarrow> (int \<times> int) list" where
  "mipLoop mipWidth mipHeight =
     (if mipWidth > 32 \<and> mipHeight > 32 then
        let mipWidth' = max 32 (mipWidth div 2);
            mipHeight' = max 32 (mipHeight div 2)
        in (mipWidth', mipHeight') # mipLoop mipWidth' mipHeight'
      else [])"
  by pat_completeness auto
termination
  by (relation "measure (\<lambda>(w, h). nat w)") auto

declare mipLoop.simps [simp del]

definition mipScale :: "int \<Rightarrow> int \<Rightarrow> int \<Rightarrow> real" where
  "mipScale sourceWidth sourceHeight maxDimension =
     min (min (if sourceWidth = 0 then 1 else real_of_int maxDimension / real_of_int sourceWidth)
              (if sourceHeight = 0 then 1 else real_of_int maxDimension / real_of_int sourceHeight))
         1"

definition generateMipmaps :: "int \<Rightarrow> int \<Rightarrow> int \<Rightarrow> (int \<times> int) list" where
  "generateMipmaps sourceWidth sourceHeight maxDimension =
     (let scale = mipScale sourceWidth sourceHeight maxDimension;
          mipWidth = round (real_of_int sourceWidth * scale);
          mipHeight = round (real_of_int sourceHeight * scale)
      in (mipWidth, mipHeight) # mipLoop mipWidth mipHeight)"

section \<open>Text metrics\<close>

text \<open>
  \<^verbatim>\<open>ctx.measureText(line)\<close> belongs to the browser: it is a parameter, a function of the
  font, the font size and the line that gives the width, the ascent and the descent
  (\<^verbatim>\<open>actualBoundingBoxAscent || 0\<close>, \<^verbatim>\<open>actualBoundingBoxDescent || 0\<close>).
\<close>

record line_metrics =
  lm_width :: real
  lm_ascent :: real
  lm_descent :: real

type_synonym measureText = "string \<Rightarrow> real \<Rightarrow> js_text \<Rightarrow> line_metrics"

record block_metrics =
  lines :: "js_text list"
  lineHeight :: real
  maxWidth :: real
  totalHeight :: real
  ascent :: real

text \<open>\<^verbatim>\<open>text.split('\n')\<close>\<close>

fun splitOn :: "'a \<Rightarrow> 'a list \<Rightarrow> 'a list list" where
  "splitOn c [] = [[]]"
| "splitOn c (d # s) =
     (if d = c then [] # splitOn c s
      else case splitOn c s of [] \<Rightarrow> [[d]] | r # rs \<Rightarrow> (d # r) # rs)"

text \<open>
  The code units that \<^verbatim>\<open>trim()\<close> removes: the white space and the line terminators of
  the language, that is tab, line feed, vertical tab, form feed, carriage return, space,
  no-break space, U+1680, U+2000 to U+200A, the line and paragraph separators, U+202F,
  U+205F, U+3000 and U+FEFF.
\<close>

definition isSpace :: "nat \<Rightarrow> bool" where
  "isSpace c =
     (c \<in> {0x09, 0x0A, 0x0B, 0x0C, 0x0D, 0x20, 0xA0, 0x1680, 0x2028, 0x2029, 0x202F,
             0x205F, 0x3000, 0xFEFF}
      \<or> (0x2000 \<le> c \<and> c \<le> 0x200A))"

definition getTextBlockMetrics :: "measureText \<Rightarrow> js_text \<Rightarrow> string \<Rightarrow> real \<Rightarrow> block_metrics" where
  "getTextBlockMetrics msr txt fnt fntSize =
     (if list_all isSpace txt then
        \<lparr>lines = [], lineHeight = 0, maxWidth = 0, totalHeight = 0, ascent = 0\<rparr>
      else
        let lns = splitOn 0x0A txt;
            ms = map (msr fnt fntSize) lns;
            maxW = fold (\<lambda>m acc. max acc (lm_width m)) ms 0;
            maxAscent = fold (\<lambda>m acc. max acc (lm_ascent m)) ms 0;
            maxDescent = fold (\<lambda>m acc. max acc (lm_descent m)) ms 0;
            singleLineHeight = maxAscent + maxDescent;
            finalLineHeight = (if singleLineHeight > 0 then singleLineHeight else fntSize * 1.2);
            total = real (length lns) * finalLineHeight
        in \<lparr>lines = lns, lineHeight = finalLineHeight, maxWidth = maxW,
            totalHeight = total, ascent = maxAscent\<rparr>)"

section \<open>Effect cache\<close>

text \<open>The padding of \<open>updateLayerCache\<close>.\<close>

definition cachePadding :: "layer \<Rightarrow> real" where
  "cachePadding layer =
     (let padding = (if sh_enabled (shadow layer)
                     then (sh_blur (shadow layer) * 2)
                          + max \<bar>sh_offsetX (shadow layer)\<bar> \<bar>sh_offsetY (shadow layer)\<bar>
                     else 0)
      in if layer_type layer = ''image'' \<and> bd_enabled (border layer)
         then padding + bd_width (border layer) * 2
         else padding)"

text \<open>The filter string, as the list of its functions: border, shadow, colour.\<close>

definition borderFilters :: "string \<Rightarrow> border \<Rightarrow> filter_fn list" where
  "borderFilters ltype b =
     (if ltype = ''image'' \<and> bd_enabled b \<and> bd_width b > 0 then
        let w = bd_width b; c = bd_color b in
        [DropShadow w w 0 c, DropShadow (- w) (- w) 0 c,
         DropShadow (- w) w 0 c, DropShadow w (- w) 0 c]
      else [])"

definition shadowFilter :: "shadow \<Rightarrow> filter_fn list" where
  "shadowFilter s =
     (if sh_enabled s then [DropShadow (sh_offsetX s) (sh_offsetY s) (sh_blur s) (sh_color s)]
      else [])"

text \<open>\<^verbatim>\<open>layer.contrast || 1\<close>: a missing contrast and the contrast 0 both give 1.\<close>

definition contrastOr1 :: "real option \<Rightarrow> real" where
  "contrastOr1 c = (case c of None \<Rightarrow> 1 | Some v \<Rightarrow> if v = 0 then 1 else v)"

definition textStyle :: "layer \<Rightarrow> text_style" where
  "textStyle layer =
     \<lparr>ts_font = font layer, ts_fontSize = fontSize layer, ts_fillStyle = color layer,
      ts_stroke = (if strokeWidth layer > 0 then Some (strokeColor layer, strokeWidth layer)
                   else None)\<rparr>"

text \<open>The calls of \<^verbatim>\<open>metrics.lines.forEach((line, index) => ...)\<close>, from \<open>index\<close> on.\<close>

fun drawTextLines :: "layer \<Rightarrow> block_metrics \<Rightarrow> nat \<Rightarrow> js_text list \<Rightarrow> draw_call list" where
  "drawTextLines layer metrics index [] = []"
| "drawTextLines layer metrics index (line # rest) =
     (let topOfBlockY = - totalHeight metrics / 2;
          yPos = topOfBlockY + ascent metrics + (real index * lineHeight metrics)
      in (if strokeWidth layer > 0 then [StrokeText (textStyle layer) line 0 yPos] else [])
         @ [FillText (textStyle layer) line 0 yPos]
         @ drawTextLines layer metrics (Suc index) rest)"

text \<open>
  The \<^verbatim>\<open>width\<close> and \<^verbatim>\<open>height\<close> of a canvas element are unsigned integers. A number
  assigned to one of them is truncated towards zero and taken modulo \<open>2 ^ 32\<close>, and a
  result above 2147483647 is replaced by the default of the attribute, 300 for the width
  and 150 for the height.
\<close>

definition toUint32 :: "real \<Rightarrow> int" where
  "toUint32 v = (if 0 \<le> v then \<lfloor>v\<rfloor> else \<lceil>v\<rceil>) mod 2 ^ 32"

definition canvasDimension :: "real \<Rightarrow> real \<Rightarrow> real" where
  "canvasDimension dflt v =
     (let n = toUint32 v in if n \<le> 2147483647 then real_of_int n else dflt)"

text \<open>
  The part of \<open>updateLayerCache\<close> after the content size is known. Setting the size of
  a canvas clears it, so the canvas that was there before does not show in the result.
\<close>

definition buildCache :: "measureText \<Rightarrow> layer \<Rightarrow> cache \<Rightarrow> real \<Rightarrow> real \<Rightarrow> layer" where
  "buildCache msr layer c contentWidth contentHeight =
     (if contentWidth \<le> 0 \<or> contentHeight \<le> 0 then
        layer\<lparr>cache := Some
          \<lparr>cache_canvas =
             (case cache_canvas c of
                None \<Rightarrow> None
              | Some cv \<Rightarrow> Some (cv\<lparr>width := 0, height := 0, drawn := []\<rparr>)),
           isValid = True\<rparr>\<rparr>
      else
        let padding = cachePadding layer;
            cacheWidth = contentWidth + padding * 2;
            cacheHeight = contentHeight + padding * 2;
            fs = borderFilters (layer_type layer) (border layer) @ shadowFilter (shadow layer)
                 @ [Brightness (brightness layer), Saturate (saturation layer),
                    Contrast (contrastOr1 (contrast layer))];
            calls =
              (if layer_type layer = ''image'' then
                 (case mipmaps layer of
                    Some (assetToDraw # _) \<Rightarrow>
                      [DrawImage assetToDraw (- contentWidth / 2) (- contentHeight / 2)
                         contentWidth contentHeight]
                  | _ \<Rightarrow> [])
               else
                 let metrics = getTextBlockMetrics msr (layer_text layer) (font layer)
                                 (fontSize layer)
                 in drawTextLines layer metrics 0 (lines metrics))
        in layer\<lparr>cache := Some
             \<lparr>cache_canvas = Some
                \<lparr>width = canvasDimension 300 cacheWidth,
                 height = canvasDimension 150 cacheHeight,
                 translate = \<lparr>x = cacheWidth / 2, y = cacheHeight / 2\<rparr>,
                 filters = fs, globalAlpha = opacity layer, drawn = calls\<rparr>,
              isValid = True\<rparr>\<rparr>)"

definition updateLayerCache :: "measureText \<Rightarrow> layer \<Rightarrow> layer" where
  "updateLayerCache msr layer =
     (let c = (case cache layer of None \<Rightarrow> \<lparr>cache_canvas = None, isValid = False\<rparr> | Some c \<Rightarrow> c)
      in if layer_type layer = ''image'' then
           (case mipmaps layer of
              None \<Rightarrow> layer\<lparr>cache := Some (c\<lparr>isValid := False\<rparr>)\<rparr>
            | Some [] \<Rightarrow> layer\<lparr>cache := Some (c\<lparr>isValid := False\<rparr>)\<rparr>
            | Some (baseProxy # _) \<Rightarrow>
                if width baseProxy = 0 then layer\<lparr>cache := Some (c\<lparr>isValid := False\<rparr>)\<rparr>
                else buildCache msr layer c (width baseProxy) (height baseProxy))
         else
           let metrics = getTextBlockMetrics msr (layer_text layer) (font layer)
                           (fontSize layer);
               layer' = layer\<lparr>textWidth := maxWidth metrics, textHeight := totalHeight metrics\<rparr>
           in buildCache msr layer' c (maxWidth metrics) (totalHeight metrics))"

subsection \<open>The worker\<close>

text \<open>
  \<^verbatim>\<open>renderLayer(layerData)\<close> of \<^verbatim>\<open>layer-renderer.js\<close>. The \<^verbatim>\<open>properties\<close> object has the
  shadow, the border, the brightness, the saturation and the opacity of a layer: a
  \<open>layer\<close> carries them here. The result is the bitmap, or the error thrown.
\<close>

datatype error = Invalid_cache_dimensions

definition workerPadding :: "string \<Rightarrow> layer \<Rightarrow> real" where
  "workerPadding ltype properties =
     (let padding = (if sh_enabled (shadow properties)
                     then (sh_blur (shadow properties) * 2.5)
                          + max \<bar>sh_offsetX (shadow properties)\<bar> \<bar>sh_offsetY (shadow properties)\<bar>
                     else 0)
      in if ltype = ''image'' \<and> bd_enabled (border properties)
         then padding + bd_width (border properties) * 2
         else padding)"

definition renderLayer :: "raster \<Rightarrow> string \<Rightarrow> layer \<Rightarrow> real \<Rightarrow> real \<Rightarrow> error + cache_canvas" where
  "renderLayer imageData ltype properties contentWidth contentHeight =
     (let padding = workerPadding ltype properties;
          cacheWidth = real_of_int (round (contentWidth + padding * 2));
          cacheHeight = real_of_int (round (contentHeight + padding * 2))
      in if cacheWidth \<le> 0 \<or> cacheHeight \<le> 0 then Inl Invalid_cache_dimensions
         else Inr
           \<lparr>width = cacheWidth, height = cacheHeight,
            translate = \<lparr>x = cacheWidth / 2, y = cacheHeight / 2\<rparr>,
            filters = borderFilters ltype (border properties) @ shadowFilter (shadow properties)
                      @ [Brightness (brightness properties), Saturate (saturation properties)],
            globalAlpha = opacity properties,
            drawn = [DrawImage imageData (- contentWidth / 2) (- contentHeight / 2)
                       contentWidth contentHeight]\<rparr>)"

section \<open>Compositor\<close>

text \<open>
  The target context of \<open>drawLayers\<close> is the list of the \<^verbatim>\<open>drawImage\<close> calls made on
  it, oldest first: a later call paints over an earlier one. Each call is recorded with
  the transformations applied since \<^verbatim>\<open>ctx.save()\<close>, in order, and with the alpha that
  was set (\<open>None\<close>: the alpha of the context is left as it was). \<^verbatim>\<open>Date.now()\<close> is the
  parameter \<open>now\<close>.
\<close>

datatype xform = Translate real real | Rotate real | Scale real real

record blit =
  transforms :: "xform list"
  alpha :: "real option"
  source :: cache_canvas
  dx :: real
  dy :: real

definition FADE_IN_DURATION :: real where
  "FADE_IN_DURATION = 300"

text \<open>The body of the loop of \<open>drawLayers\<close> for the layer \<open>l\<close>: the calls it adds to the
  context, and the layer after the rebuild of its cache.\<close>

definition drawLayer :: "measureText \<Rightarrow> real \<Rightarrow> bool \<Rightarrow> layer \<Rightarrow> blit list \<times> layer" where
  "drawLayer msr now isFinalRender l0 =
     (let l = (case cache l0 of
                 None \<Rightarrow> updateLayerCache msr l0
               | Some c \<Rightarrow> if \<not> isValid c then updateLayerCache msr l0 else l0)
      in case cache l of
           None \<Rightarrow> ([], l)
         | Some c \<Rightarrow>
             (case cache_canvas c of
                None \<Rightarrow> ([], l)
              | Some cv \<Rightarrow>
                  if width cv > 0 then
                    let age = now - createdAt l;
                        animating = (\<not> isFinalRender \<and> \<not> restored l \<and> age < FADE_IN_DURATION);
                        animationProgress = age / FADE_IN_DURATION;
                        scaleFactor = 0.95 + 0.05 * animationProgress;
                        scale = (if layer_type l = ''image'' then
                                   (case mipmaps l of
                                      Some (baseProxy # _) \<Rightarrow> layer_size l / width baseProxy
                                    | _ \<Rightarrow> 1)
                                 else 1)
                    in ([\<lparr>transforms =
                             [Translate (x l) (y l), Rotate (rot l * pi / 180)]
                             @ (if animating then [Scale scaleFactor scaleFactor] else [])
                             @ (if flipX l then [Scale (- 1) 1] else [])
                             @ [Scale scale scale],
                           alpha = (if animating then Some animationProgress else None),
                           source = cv,
                           dx = - width cv / 2,
                           dy = - height cv / 2\<rparr>], l)
                  else ([], l)))"



text \<open>
  What the specification asks of \<open>drawLayers\<close>, in its words. For each layer: rebuild
  the cache if it is invalid; skip drawing if the cache surface has zero area; else
  translate to \<open>(x, y)\<close>, rotate by \<open>rot\<close>, apply the entrance ramp if the layer is newer
  than the fade duration, not in final export and not restored (alpha is the progress,
  scale is \<open>0.95 + 0.05 * progress\<close>), flip by a negative horizontal scale, scale by
  \<open>size / mipmapBaseWidth\<close> for images and by 1 for text, and blit the cache bitmap
  centred at the origin. The layers are composited in array order with index 0 topmost:
  those below are composited first, and the first layer of the array is painted over them.
\<close>

definition specRebuilt :: "measureText \<Rightarrow> layer \<Rightarrow> layer" where
  "specRebuilt msr l =
     (case cache l of
        None \<Rightarrow> updateLayerCache msr l
      | Some c \<Rightarrow> if isValid c then l else updateLayerCache msr l)"




text \<open>
  A cache surface is sound when its width is not negative and, if its width is positive,
  so is its height; \<open>soundCache\<close> says so of the surface that a layer has once its cache
  is rebuilt.
\<close>

definition soundCache :: "measureText \<Rightarrow> layer \<Rightarrow> bool" where
  "soundCache msr l =
     (case cache (specRebuilt msr l) of
        None \<Rightarrow> True
      | Some c \<Rightarrow>
          (case cache_canvas c of
             None \<Rightarrow> True
           | Some bitmap \<Rightarrow> 0 \<le> width bitmap \<and> (0 < width bitmap \<longrightarrow> 0 < height bitmap)))"

section \<open>Geometry\<close>

text \<open>
  The definitions of this section divide by the width of the base mipmap and by the
  size of the layer as the source does. They give what the program computes where these
  are not 0; the theorems that need it say so.
\<close>

record metrics =
  dWidth :: real
  dHeight :: real

definition getLayerMetrics :: "measureText \<Rightarrow> layer \<Rightarrow> metrics" where
  "getLayerMetrics msr layer =
     (if layer_type layer = ''image'' then
        (case (contentFrame layer, mipmaps layer) of
           (Some frame, Some (baseProxy # _)) \<Rightarrow>
             let scale = layer_size layer / width baseProxy
             in \<lparr>dWidth = cf_width frame * scale, dHeight = cf_height frame * scale\<rparr>
         | _ \<Rightarrow> \<lparr>dWidth = 0, dHeight = 0\<rparr>)
      else if layer_type layer = ''text'' then
        let m = getTextBlockMetrics msr (layer_text layer) (font layer) (fontSize layer)
        in \<lparr>dWidth = maxWidth m, dHeight = totalHeight m\<rparr>
      else \<lparr>dWidth = 0, dHeight = 0\<rparr>)"

record bbox =
  bb_left :: real
  bb_top :: real
  bb_right :: real
  bb_bottom :: real
  bb_width :: real
  bb_height :: real

definition getRotatedBoundingBox :: "measureText \<Rightarrow> layer \<Rightarrow> bbox" where
  "getRotatedBoundingBox msr layer =
     (let m = getLayerMetrics msr layer in
      if dWidth m = 0 \<or> dHeight m = 0 then
        \<lparr>bb_left = x layer, bb_top = y layer, bb_right = x layer, bb_bottom = y layer,
         bb_width = 0, bb_height = 0\<rparr>
      else
        let angle = rot layer * pi / 180;
            halfW = dWidth m / 2;
            halfH = dHeight m / 2;
            corners = [(- halfW, - halfH), (halfW, - halfH), (halfW, halfH), (- halfW, halfH)];
            xs = map (\<lambda>(cx, cy). x layer + (cx * cos angle - cy * sin angle)) corners;
            ys = map (\<lambda>(cx, cy). y layer + (cx * sin angle + cy * cos angle)) corners;
            minX = Min (set xs); maxX = Max (set xs);
            minY = Min (set ys); maxY = Max (set ys)
        in \<lparr>bb_left = minX, bb_top = minY, bb_right = maxX, bb_bottom = maxY,
            bb_width = maxX - minX, bb_height = maxY - minY\<rparr>)"

text \<open>
  The offset of the centre of the content frame from the centre of the layer, which
  \<open>getHandleWorldPosition\<close>, \<open>getMovieHandleAtPoint\<close> and \<open>isPointInMovieLayer\<close> each
  compute in the same way.
\<close>

definition frameOffset :: "layer \<Rightarrow> real \<times> real" where
  "frameOffset layer =
     (if layer_type layer = ''image'' then
        (case (contentFrame layer, mipmaps layer) of
           (Some frame, Some (baseProxy # _)) \<Rightarrow>
             let fullWidth = layer_size layer;
                 fullHeight = layer_size layer * (height baseProxy / width baseProxy);
                 frameScale = fullWidth / width baseProxy;
                 frameCenterX = (cf_x frame + cf_width frame / 2) * frameScale;
                 frameCenterY = (cf_y frame + cf_height frame / 2) * frameScale
             in (frameCenterX - (fullWidth / 2), frameCenterY - (fullHeight / 2))
         | _ \<Rightarrow> (0, 0))
      else (0, 0))"

text \<open>The table \<^verbatim>\<open>handles\<close>: the corner named, \<open>None\<close> for any other name.\<close>

definition handleLocal :: "metrics \<Rightarrow> string \<Rightarrow> (real \<times> real) option" where
  "handleLocal m handleName =
     (if handleName = ''tl'' then Some (- dWidth m / 2, - dHeight m / 2)
      else if handleName = ''tr'' then Some (dWidth m / 2, - dHeight m / 2)
      else if handleName = ''bl'' then Some (- dWidth m / 2, dHeight m / 2)
      else if handleName = ''br'' then Some (dWidth m / 2, dHeight m / 2)
      else None)"

definition getHandleWorldPosition :: "measureText \<Rightarrow> layer \<Rightarrow> string \<Rightarrow> point" where
  "getHandleWorldPosition msr layer handleName =
     (let m = getLayerMetrics msr layer in
      if dWidth m = 0 \<or> dHeight m = 0 then \<lparr>x = x layer, y = y layer\<rparr>
      else
        let (offsetX, offsetY) = frameOffset layer in
        case handleLocal m handleName of
          None \<Rightarrow> \<lparr>x = x layer, y = y layer\<rparr>
        | Some (hx, hy) \<Rightarrow>
            let angle = rot layer * pi / 180
            in \<lparr>x = x layer + ((offsetX + hx) * cos angle - (offsetY + hy) * sin angle),
                y = y layer + ((offsetX + hx) * sin angle + (offsetY + hy) * cos angle)\<rparr>)"

definition oppositeHandles :: "string \<Rightarrow> string" where
  "oppositeHandles h =
     (if h = ''tl'' then ''br'' else if h = ''tr'' then ''bl''
      else if h = ''bl'' then ''tr'' else if h = ''br'' then ''tl'' else h)"

definition isPointInMovieLayer :: "measureText \<Rightarrow> point \<Rightarrow> layer \<Rightarrow> bool" where
  "isPointInMovieLayer msr p layer =
     (let m = getLayerMetrics msr layer in
      if dWidth m = 0 then False
      else
        let ddx = x p - x layer;
            ddy = y p - y layer;
            (offsetX, offsetY) = frameOffset layer;
            angle = - rot layer * pi / 180;
            localX = ddx * cos angle - ddy * sin angle;
            localY = ddx * sin angle + ddy * cos angle
        in \<bar>localX - offsetX\<bar> < dWidth m / 2 \<and> \<bar>localY - offsetY\<bar> < dHeight m / 2)"

text \<open>The raster coordinates that \<open>isPixelOpaqueAtPoint\<close> samples for an image layer
  with base mipmap \<open>baseProxy\<close>.\<close>

definition opacityProxyPoint :: "layer \<Rightarrow> raster \<Rightarrow> point \<Rightarrow> int \<times> int" where
  "opacityProxyPoint layer baseProxy p =
     (let ddx = x p - x layer;
          ddy = y p - y layer;
          angle = - rot layer * pi / 180;
          localX = ddx * cos angle - ddy * sin angle;
          localY = ddx * sin angle + ddy * cos angle;
          assetWidth = width baseProxy;
          assetHeight = height baseProxy;
          layerRenderWidth = layer_size layer;
          layerRenderHeight = layer_size layer * (assetHeight / assetWidth);
          scale = assetWidth / layerRenderWidth;
          proxyX = \<lfloor>(localX + layerRenderWidth / 2) * scale\<rfloor>;
          proxyY = \<lfloor>(localY + layerRenderHeight / 2) * scale\<rfloor>
      in (proxyX, proxyY))"

definition isPixelOpaqueAtPoint :: "layer \<Rightarrow> point \<Rightarrow> bool" where
  "isPixelOpaqueAtPoint layer p =
     (if layer_type layer \<noteq> ''image'' then True
      else case mipmaps layer of
        None \<Rightarrow> True
      | Some [] \<Rightarrow> True
      | Some (baseProxy # _) \<Rightarrow>
          let (proxyX, proxyY) = opacityProxyPoint layer baseProxy p in
          if proxyX < 0 \<or> real_of_int proxyX \<ge> width baseProxy
             \<or> proxyY < 0 \<or> real_of_int proxyY \<ge> height baseProxy
          then False
          else (case pixelAlpha baseProxy proxyX proxyY of
                  None \<Rightarrow> True
                | Some a \<Rightarrow> a > 10))"

text \<open>The raster coordinates at which \<open>applyBrushToLayer\<close> puts the brush: the eraser
  maps the pointer into the raster as the hit test does, and mirrors it for a flipped
  layer.\<close>

definition brushProxyPoint :: "layer \<Rightarrow> raster \<Rightarrow> point \<Rightarrow> real \<times> real" where
  "brushProxyPoint layer baseProxy canvasPoint =
     (let ddx = x canvasPoint - x layer;
          ddy = y canvasPoint - y layer;
          angle = - rot layer * pi / 180;
          localX = ddx * cos angle - ddy * sin angle;
          localY = ddx * sin angle + ddy * cos angle;
          finalLocalX = (if flipX layer then - localX else localX);
          assetWidth = width baseProxy;
          assetHeight = height baseProxy;
          layerRenderWidth = layer_size layer;
          layerRenderHeight = layer_size layer * (assetHeight / assetWidth);
          scaleFactor = assetWidth / layerRenderWidth;
          proxyX = (finalLocalX + layerRenderWidth / 2) * scaleFactor;
          proxyY = (localY + layerRenderHeight / 2) * scaleFactor
      in (proxyX, proxyY))"

section \<open>Pointer interaction\<close>

text \<open>
  The loop of \<open>handleMovieInteractionStart\<close> over the layers, topmost first, with its
  \<^verbatim>\<open>break\<close>: the result is \<open>(layerToSelect, topBoundingBoxLayer)\<close> at the end of the loop.
\<close>

fun scanLayers :: "measureText \<Rightarrow> point \<Rightarrow> layer list \<Rightarrow> layer option
                     \<Rightarrow> layer option \<times> layer option" where
  "scanLayers msr p [] topBoundingBoxLayer = (None, topBoundingBoxLayer)"
| "scanLayers msr p (layer # rest) topBoundingBoxLayer =
     (if isPointInMovieLayer msr p layer then
        let topBoundingBoxLayer' =
              (case topBoundingBoxLayer of None \<Rightarrow> Some layer | Some t \<Rightarrow> Some t)
        in if isPixelOpaqueAtPoint layer p then (Some layer, topBoundingBoxLayer')
           else scanLayers msr p rest topBoundingBoxLayer'
      else scanLayers msr p rest topBoundingBoxLayer)"

definition layerToSelect :: "measureText \<Rightarrow> point \<Rightarrow> layer list \<Rightarrow> layer option" where
  "layerToSelect msr p ls =
     (case scanLayers msr p ls None of
        (Some layer, _) \<Rightarrow> Some layer
      | (None, topBoundingBoxLayer) \<Rightarrow> topBoundingBoxLayer)"

text \<open>
  The resize gesture. \<open>resizeStart\<close> is what \<open>handleMovieInteractionStart\<close> records when a
  corner handle of the active layer is hit; the snapshot \<open>initialState\<close> is a copy of the
  layer, of which only the numbers are read later.
\<close>

record interaction =
  handle :: string
  anchorPoint :: point
  startHandlePoint :: point
  initialState :: layer

definition resizeStart :: "measureText \<Rightarrow> layer \<Rightarrow> string \<Rightarrow> interaction" where
  "resizeStart msr activeLayer h =
     \<lparr>handle = h,
      anchorPoint = getHandleWorldPosition msr activeLayer (oppositeHandles h),
      startHandlePoint = getHandleWorldPosition msr activeLayer h,
      initialState = activeLayer\<rparr>"

text \<open>The scale factor of the resize branch of \<open>handleMovieInteractionMove\<close>, computed
  when \<open>initialDist > 1\<close>.\<close>

definition resizeScaleFactor :: "interaction \<Rightarrow> point \<Rightarrow> real" where
  "resizeScaleFactor i p =
     (let initialVector = (x (startHandlePoint i) - x (anchorPoint i),
                           y (startHandlePoint i) - y (anchorPoint i));
          currentMouseVector = (x p - x (anchorPoint i), y p - y (anchorPoint i));
          initialDist = hypot (fst initialVector) (snd initialVector);
          dotProduct = fst currentMouseVector * fst initialVector
                       + snd currentMouseVector * snd initialVector;
          projectedDist = dotProduct / initialDist
      in max 0.01 (projectedDist / initialDist))"

text \<open>The actions that the resize branch dispatches for the active layer \<open>l\<close>.\<close>

definition resizeActions :: "interaction \<Rightarrow> layer \<Rightarrow> point \<Rightarrow> action list" where
  "resizeActions i l p =
     (let initialDist = hypot (x (startHandlePoint i) - x (anchorPoint i))
                              (y (startHandlePoint i) - y (anchorPoint i))
      in if initialDist > 1 then
           let scaleFactor = resizeScaleFactor i p;
               vectorFromAnchorToCenter = (x (initialState i) - x (anchorPoint i),
                                           y (initialState i) - y (anchorPoint i));
               newX = x (anchorPoint i) + fst vectorFromAnchorToCenter * scaleFactor;
               newY = y (anchorPoint i) + snd vectorFromAnchorToCenter * scaleFactor
           in [LAYER_TRANSFORMED (layer_id l) [Set_x newX, Set_y newY],
               if layer_type l = ''text''
               then LAYER_PROPERTY_CHANGED (layer_id l)
                      (Set_fontSize (max 10 (fontSize (initialState i) * scaleFactor)))
               else LAYER_PROPERTY_CHANGED (layer_id l)
                      (Set_size (max 20 (layer_size (initialState i) * scaleFactor)))]
         else [])"

text \<open>\<^verbatim>\<open>this.dispatch(action)\<close> on the canvas state, and \<open>getActiveLayer\<close>.\<close>

definition dispatchAll :: "action list \<Rightarrow> canvasState \<Rightarrow> canvasState" where
  "dispatchAll as cs = fold (\<lambda>a s. canvasStateReducer s a) as cs"

definition getActiveLayer :: "canvasState \<Rightarrow> string \<Rightarrow> layer option" where
  "getActiveLayer cs activeLayerId = find (\<lambda>l. layer_id l = activeLayerId) (layers cs)"

definition resizeMove :: "interaction \<Rightarrow> string \<Rightarrow> point \<Rightarrow> canvasState \<Rightarrow> canvasState" where
  "resizeMove i activeLayerId p cs =
     (case getActiveLayer cs activeLayerId of
        None \<Rightarrow> cs
      | Some l \<Rightarrow> dispatchAll (resizeActions i l p) cs)"

section \<open>Background\<close>

text \<open>
  The application state that \<open>setBackground\<close> and \<open>rotateProject\<close> change: the canvas
  state, the view, the master size and the sizes of the three canvases. The toasts, the
  panels, the dominant colour and the redraw at the end, which touches only the caches of
  the layers, are left out. \<open>view_scale\<close> is the \<^verbatim>\<open>scale\<close> of a view state.
\<close>

record view =
  view_scale :: real
  pan :: point

record app =
  canvasState :: canvasState
  viewState :: view
  targetViewState :: view
  masterWidth :: real
  masterHeight :: real
  backgroundCanvas :: canvas
  movieCanvas :: canvas
  controlsOverlayCanvas :: canvas

definition dispatch :: "action \<Rightarrow> app \<Rightarrow> app" where
  "dispatch a st = st\<lparr>canvasState := canvasStateReducer (canvasState st) a\<rparr>"

definition MAX_CANVAS_WIDTH :: real where
  "MAX_CANVAS_WIDTH = 1920"

text \<open>The size of the canvases for a background that is \<open>w\<close> by \<open>h\<close> after the tilt.\<close>

definition newCanvasSize :: "real \<Rightarrow> real \<Rightarrow> canvas" where
  "newCanvasSize w h =
     (let canvasAspectRatio = w / h;
          newCanvasWidth = (if w > MAX_CANVAS_WIDTH then MAX_CANVAS_WIDTH else w);
          newCanvasHeight = (if w > MAX_CANVAS_WIDTH then MAX_CANVAS_WIDTH / canvasAspectRatio else h)
      in \<lparr>width = real_of_int (round newCanvasWidth),
          height = real_of_int (round newCanvasHeight)\<rparr>)"

text \<open>
  The body of \<^verbatim>\<open>layers.forEach(l => ...)\<close> in \<open>setBackground\<close>. \<open>placeLayer\<close> is its
  first part, the assignments of the size and of the position from the proportional
  fields; \<open>adaptLayer\<close> is the whole body, which then moves a layer whose rotated
  bounding box sticks out of the canvas back inside and marks the cache invalid.
\<close>

definition placeLayer :: "real \<Rightarrow> real \<Rightarrow> layer \<Rightarrow> layer" where
  "placeLayer newCanvasWidth newCanvasHeight l =
     (let newMasterDim = sqrt (newCanvasWidth * newCanvasHeight);
          l1 = (if layer_type l = ''image'' then l\<lparr>layer_size := propSize l * newMasterDim\<rparr>
                else l\<lparr>fontSize := propSize l * newMasterDim\<rparr>)
      in l1\<lparr>x := propX l1 * newCanvasWidth, y := propY l1 * newCanvasHeight\<rparr>)"

definition adaptLayer :: "measureText \<Rightarrow> real \<Rightarrow> real \<Rightarrow> layer \<Rightarrow> layer" where
  "adaptLayer msr newCanvasWidth newCanvasHeight l =
     (let l2 = placeLayer newCanvasWidth newCanvasHeight l;
          box = getRotatedBoundingBox msr l2;
          deltaX = (if bb_left box < 0 then - bb_left box
                    else if bb_right box > newCanvasWidth then newCanvasWidth - bb_right box
                    else 0);
          deltaY = (if bb_top box < 0 then - bb_top box
                    else if bb_bottom box > newCanvasHeight then newCanvasHeight - bb_bottom box
                    else 0);
          l3 = l2\<lparr>x := x l2 + deltaX, y := y l2 + deltaY\<rparr>
      in case cache l3 of
           None \<Rightarrow> l3
         | Some c \<Rightarrow> l3\<lparr>cache := Some (c\<lparr>isValid := False\<rparr>)\<rparr>)"

definition setBackground :: "measureText \<Rightarrow> image \<Rightarrow> string option \<Rightarrow> bool \<Rightarrow> app \<Rightarrow> app" where
  "setBackground msr element hash isRestoring st0 =
     (let st1 = (if \<not> isRestoring \<and> hash \<noteq> backgroundHash (canvasState st0)
                 then dispatch RESET_PROJECT_ROTATION st0 else st0);
          st2 = st1\<lparr>viewState := \<lparr>view_scale = 1, pan = \<lparr>x = 0, y = 0\<rparr>\<rparr>,
                    targetViewState := \<lparr>view_scale = 1, pan = \<lparr>x = 0, y = 0\<rparr>\<rparr>\<rparr>;
          cs2 = canvasState st2;
          cs3 = (if \<not> isRestoring then cs2\<lparr>bgBrightness := 1, bgSaturation := 1\<rparr> else cs2);
          isFirstBackground = (backgroundElement cs3 = None);
          cs4 = cs3\<lparr>backgroundElement := Some element, backgroundType := ''image'',
                    backgroundHash := hash\<rparr>;
          w_orig = naturalWidth element;
          h_orig = naturalHeight element;
          isTilted = (projectRotation cs4 \<in> {90, 270});
          w = (if isTilted then h_orig else w_orig);
          h = (if isTilted then w_orig else h_orig);
          sz = newCanvasSize w h;
          cs5 = (if \<not> isFirstBackground \<and> length (layers cs4) > 0
                 then cs4\<lparr>layers := map (adaptLayer msr (width sz) (height sz)) (layers cs4)\<rparr>
                 else cs4);
          st3 = st2\<lparr>canvasState := cs5, masterWidth := w, masterHeight := h,
                    backgroundCanvas := sz, movieCanvas := sz, controlsOverlayCanvas := sz\<rparr>
      in if \<not> isRestoring then dispatch (BACKGROUND_CHANGED hash) st3 else st3)"

definition rotateProject :: "measureText \<Rightarrow> app \<Rightarrow> app" where
  "rotateProject msr st =
     (case backgroundElement (canvasState st) of
        None \<Rightarrow> st
      | Some element \<Rightarrow>
          let st' = dispatch PROJECT_ROTATED st
          in setBackground msr element (backgroundHash (canvasState st')) True st')"

section \<open>Example values\<close>

text \<open>
  Concrete values for the instances below. \<open>exampleRaster\<close> is 100 by 100 with an opaque
  left half and a transparent right half. \<open>exampleLayer\<close> is an image layer of size 100
  centred at \<open>(50, 50)\<close>, not rotated, whose content frame is its whole raster.
  \<open>exampleMeasure\<close> measures text in a font whose characters are 0.6 of the font size
  wide.
\<close>

definition exampleRaster :: raster where
  "exampleRaster =
     \<lparr>width = 100, height = 100, pixelAlpha = (\<lambda>px py. Some (if px < 50 then 255 else 0))\<rparr>"

definition exampleLayer :: layer where
  "exampleLayer =
     \<lparr>x = 50, y = 50, layer_id = ''a'', layer_type = ''image'', layer_size = 100, rot = 0,
      flipX = False, opacity = 1, brightness = 1, saturation = 1, contrast = Some 1,
      shadow = \<lparr>sh_enabled = False, sh_color = ''#000000'', sh_blur = 10,
                sh_offsetX = 10, sh_offsetY = 10\<rparr>,
      border = \<lparr>bd_enabled = False, bd_color = ''#FFFFFF'', bd_width = 4\<rparr>,
      isLocked = False, createdAt = 0, restored = False,
      cache = Some \<lparr>cache_canvas = None, isValid = False\<rparr>,
      propX = 1/2, propY = 1/2, propSize = 1/5, alignX = ''center'', alignY = ''middle'',
      mipmaps = Some [exampleRaster],
      contentFrame = Some \<lparr>cf_x = 0, cf_y = 0, cf_width = 100, cf_height = 100, isEmpty = False\<rparr>,
      layer_text = [], font = [], fontSize = 0, color = [], strokeColor = [], strokeWidth = 0,
      textWidth = 0, textHeight = 0\<rparr>"

definition exampleMeasure :: measureText where
  "exampleMeasure fnt fntSize line =
     \<lparr>lm_width = 0.6 * fntSize * real (length line), lm_ascent = 0.8 * fntSize,
      lm_descent = 0.2 * fntSize\<rparr>"

definition exampleCanvasState :: canvasState where
  "exampleCanvasState =
     \<lparr>layers = [exampleLayer, exampleLayer\<lparr>layer_id := ''b''\<rparr>],
      backgroundElement = Some \<lparr>naturalWidth = 1000, naturalHeight = 800\<rparr>,
      backgroundType = ''image'', backgroundHash = Some ''h0'',
      bgBrightness = 1, bgSaturation = 1, projectRotation = 0, backgroundFlipX = False\<rparr>"

text \<open>
  \<open>exampleApp\<close> is a project with a 1000 by 800 background at rotation 0; \<open>wideApp\<close> is
  that project after a background of 2000 by 1000 has been set.
\<close>

definition exampleApp :: app where
  "exampleApp =
     \<lparr>canvasState = exampleCanvasState,
      viewState = \<lparr>view_scale = 1, pan = \<lparr>x = 0, y = 0\<rparr>\<rparr>,
      targetViewState = \<lparr>view_scale = 1, pan = \<lparr>x = 0, y = 0\<rparr>\<rparr>,
      masterWidth = 1000, masterHeight = 800,
      backgroundCanvas = \<lparr>width = 1000, height = 800\<rparr>,
      movieCanvas = \<lparr>width = 1000, height = 800\<rparr>,
      controlsOverlayCanvas = \<lparr>width = 1000, height = 800\<rparr>\<rparr>"

definition wideApp :: app where
  "wideApp =
     setBackground exampleMeasure \<lparr>naturalWidth = 2000, naturalHeight = 1000\<rparr> (Some ''h1'')
       False exampleApp"

text \<open>
  \<open>shadowedLayer\<close> is the example layer with its shadow enabled (blur 10, offsets 10);
  \<open>emptyRasterLayer\<close> has a base mipmap of size 0 by 0. \<open>flippedLayer\<close> is the example
  layer mirrored, so that its opaque half shows on the right, and \<open>opaqueLayer\<close> is a
  layer at the same place whose raster is opaque everywhere.
\<close>

definition shadowedLayer :: layer where
  "shadowedLayer = exampleLayer\<lparr>shadow := (shadow exampleLayer)\<lparr>sh_enabled := True\<rparr>\<rparr>"

definition emptyRasterLayer :: layer where
  "emptyRasterLayer =
     exampleLayer\<lparr>mipmaps := Some [\<lparr>width = 0, height = 0, pixelAlpha = (\<lambda>px py. None)\<rparr>]\<rparr>"

definition flippedLayer :: layer where
  "flippedLayer = exampleLayer\<lparr>flipX := True\<rparr>"

definition opaqueLayer :: layer where
  "opaqueLayer =
     exampleLayer\<lparr>layer_id := ''b'',
       mipmaps := Some [\<lparr>width = 100, height = 100, pixelAlpha = (\<lambda>px py. Some 255)\<rparr>]\<rparr>"


text \<open>
  \<open>softShadowLayer\<close> is the example layer with a shadow of blur 10.2, which makes the
  padding 30.4. \<open>blankTextLayer\<close> is a text layer whose text is one no-break space.
  \<open>tallLayer\<close> is a layer at the centre of a 1000 by 800 canvas, with the size that
  its proportional size 1/5 gives there, whose raster is 100 by 1000.
\<close>

definition softShadowLayer :: layer where
  "softShadowLayer =
     exampleLayer\<lparr>shadow := (shadow exampleLayer)\<lparr>sh_enabled := True, sh_blur := 10.2\<rparr>\<rparr>"

definition blankTextLayer :: layer where
  "blankTextLayer = exampleLayer\<lparr>layer_type := ''text'', layer_text := [0xA0], fontSize := 40\<rparr>"



text \<open>
  \<open>anchoredApp\<close> is the example project with one layer, \<open>anchoredLayer\<close>, at the centre
  of its 1000 by 800 canvas with the size that its proportional size 1/5 gives there.
\<close>

definition anchoredLayer :: layer where
  "anchoredLayer = exampleLayer\<lparr>x := 500, y := 400, layer_size := (1/5) * sqrt (1000 * 800)\<rparr>"

definition anchoredApp :: app where
  "anchoredApp = exampleApp\<lparr>canvasState := exampleCanvasState\<lparr>layers := [anchoredLayer]\<rparr>\<rparr>"

text \<open>
  \<open>shrunkLayer\<close> and \<open>grownLayer\<close> are the example layer as a resize from its bottom
  right corner leaves it with the pointer at \<open>(10, 10)\<close> and at \<open>(200, 200)\<close>.
\<close>

definition shrunkLayer :: layer where
  "shrunkLayer =
     exampleLayer\<lparr>x := 5, y := 5, layer_size := 20,
                   cache := Some \<lparr>cache_canvas = None, isValid = False\<rparr>\<rparr>"

definition grownLayer :: layer where
  "grownLayer =
     exampleLayer\<lparr>x := 100, y := 100, layer_size := 200,
                   cache := Some \<lparr>cache_canvas = None, isValid = False\<rparr>\<rparr>"

section \<open>Properties of the pan constraint\<close>

text \<open>
  C4, as stated, for every canvas: below scale 1 the constrained pan is the centering
  offset of both axes. It fails on a canvas of width 0, where the guard of
  \<open>constrainPan\<close> answers \<open>(0, 0)\<close> whatever the height is: on a 0 by 800 canvas at
  scale 1/2 the centering offset of the y axis is 200.
\<close>

theorem constrainPan_zero_width_counterexample:
  "constrainPan (Some \<lparr>width = 0, height = 800\<rparr>) 5 5 (1/2)
     \<noteq> \<lparr>x = (0 - 0 * (1/2)) / 2, y = (800 - 800 * (1/2)) / 2\<rparr>"
  by (simp add: constrainPan_def)

lemma constrainPan_clamped:
  assumes "width cv \<noteq> 0" and "0 \<le> width cv" and "0 \<le> height cv"
  shows "(scale < 1 \<longrightarrow>
            constrainPan (Some cv) panX panY scale =
              \<lparr>x = (width cv - width cv * scale) / 2,
               y = (height cv - height cv * scale) / 2\<rparr>)
       \<and> (1 \<le> scale \<longrightarrow>
            constrainPan (Some cv) panX panY scale =
              \<lparr>x = max (- (width cv * scale - width cv)) (min panX 0),
               y = max (- (height cv * scale - height cv)) (min panY 0)\<rparr>
          \<and> - (width cv * scale - width cv) \<le> x (constrainPan (Some cv) panX panY scale)
          \<and> x (constrainPan (Some cv) panX panY scale) \<le> 0
          \<and> - (height cv * scale - height cv) \<le> y (constrainPan (Some cv) panX panY scale)
          \<and> y (constrainPan (Some cv) panX panY scale) \<le> 0)"
proof (intro conjI impI)
  assume "scale < 1"
  with assms(1) show "constrainPan (Some cv) panX panY scale =
      \<lparr>x = (width cv - width cv * scale) / 2, y = (height cv - height cv * scale) / 2\<rparr>"
    by (simp add: constrainPan_def Let_def)
next
  assume s: "1 \<le> scale"
  have eq: "constrainPan (Some cv) panX panY scale =
      \<lparr>x = max (- (width cv * scale - width cv)) (min panX 0),
       y = max (- (height cv * scale - height cv)) (min panY 0)\<rparr>"
    using assms(1) s by (simp add: constrainPan_def Let_def)
  have wx: "0 \<le> width cv * scale - width cv"
    using assms(2) s by (simp add: mult_le_cancel_left1)
  have hy: "0 \<le> height cv * scale - height cv"
    using assms(3) s by (simp add: mult_le_cancel_left1)
  show "constrainPan (Some cv) panX panY scale =
      \<lparr>x = max (- (width cv * scale - width cv)) (min panX 0),
       y = max (- (height cv * scale - height cv)) (min panY 0)\<rparr>"
    by (rule eq)
  show "- (width cv * scale - width cv) \<le> x (constrainPan (Some cv) panX panY scale)"
    by (simp add: eq)
  show "x (constrainPan (Some cv) panX panY scale) \<le> 0"
    using wx by (simp add: eq)
  show "- (height cv * scale - height cv) \<le> y (constrainPan (Some cv) panX panY scale)"
    by (simp add: eq)
  show "y (constrainPan (Some cv) panX panY scale) \<le> 0"
    using hy by (simp add: eq)
qed

text \<open>
  C4, amended: on a canvas whose width is not 0 (and whose dimensions are not negative),
  the constrained pan is the centering offset when the scale is below 1, and the input
  pan clamped per axis to \<open>[-(dimension * scale - dimension), 0]\<close> otherwise, so that it
  lies in that interval. Without a canvas, or on a canvas of width 0, it is \<open>(0, 0)\<close>.
\<close>

theorem constrainPan_nonzero_width:
  "(width cv \<noteq> 0 \<and> 0 \<le> width cv \<and> 0 \<le> height cv \<longrightarrow>
      (scale < 1 \<longrightarrow>
         constrainPan (Some cv) panX panY scale =
           \<lparr>x = (width cv - width cv * scale) / 2,
            y = (height cv - height cv * scale) / 2\<rparr>)
    \<and> (1 \<le> scale \<longrightarrow>
         constrainPan (Some cv) panX panY scale =
           \<lparr>x = max (- (width cv * scale - width cv)) (min panX 0),
            y = max (- (height cv * scale - height cv)) (min panY 0)\<rparr>
       \<and> - (width cv * scale - width cv) \<le> x (constrainPan (Some cv) panX panY scale)
       \<and> x (constrainPan (Some cv) panX panY scale) \<le> 0
       \<and> - (height cv * scale - height cv) \<le> y (constrainPan (Some cv) panX panY scale)
       \<and> y (constrainPan (Some cv) panX panY scale) \<le> 0))
   \<and> (width cv = 0 \<longrightarrow> constrainPan (Some cv) panX panY scale = \<lparr>x = 0, y = 0\<rparr>)
   \<and> constrainPan None panX panY scale = \<lparr>x = 0, y = 0\<rparr>"
  apply (intro conjI)
  subgoal using constrainPan_clamped [of cv scale panX panY] by blast
  subgoal by (simp add: constrainPan_def)
  subgoal by (simp add: constrainPan_def)
  done

theorem constrainPan_nonzero_width_witness:
  "constrainPan (Some \<lparr>width = 1000, height = 800\<rparr>) (-1500) 30 2 = \<lparr>x = -1000, y = 0\<rparr>
   \<and> constrainPan (Some \<lparr>width = 1000, height = 800\<rparr>) 77 (-3) (1/2) = \<lparr>x = 250, y = 200\<rparr>"
  using constrainPan_nonzero_width [of "\<lparr>width = 1000, height = 800\<rparr>" 2 "-1500" 30]
        constrainPan_nonzero_width [of "\<lparr>width = 1000, height = 800\<rparr>" "1/2" 77 "-3"]
  by simp

section \<open>Properties of the reducers\<close>

lemma layer_id_assign: "layer_id (assign p l) = layer_id l"
  by (cases p) simp_all

lemma layer_id_fold_assign: "layer_id (fold assign ps l) = layer_id l"
  by (induction ps arbitrary: l) (simp_all add: layer_id_assign)

text \<open>
  C10: for an action \<^verbatim>\<open>LAYER_TRANSFORMED\<close>, \<^verbatim>\<open>LAYER_PROPERTY_CHANGED\<close>,
  \<^verbatim>\<open>LAYER_SHADOW_CHANGED\<close> or \<^verbatim>\<open>LAYER_BORDER_CHANGED\<close> with payload id \<open>layerId\<close>, the
  reducer returns a layers array of the same length, with the same ids at the same
  indices, in which every layer whose id is not \<open>layerId\<close> is the layer that was there;
  and the canvas state returned differs from the old one in its layers only.
\<close>

theorem layer_actions_frame:
  assumes "a = LAYER_TRANSFORMED layerId ps \<or> a = LAYER_PROPERTY_CHANGED layerId p
           \<or> a = LAYER_SHADOW_CHANGED layerId sp \<or> a = LAYER_BORDER_CHANGED layerId bp"
  shows "length (layers (canvasStateReducer cs a)) = length (layers cs)
       \<and> map layer_id (layers (canvasStateReducer cs a)) = map layer_id (layers cs)
       \<and> (\<forall>i < length (layers cs). layer_id (layers cs ! i) \<noteq> layerId
              \<longrightarrow> layers (canvasStateReducer cs a) ! i = layers cs ! i)
       \<and> canvasStateReducer cs a = cs\<lparr>layers := layers (canvasStateReducer cs a)\<rparr>"
  using assms by (auto simp: layer_id_assign layer_id_fold_assign)

theorem layer_actions_frame_witness:
  "layers (canvasStateReducer exampleCanvasState
             (LAYER_PROPERTY_CHANGED ''b'' (Set_opacity (1/2)))) ! 0 = exampleLayer
   \<and> length (layers (canvasStateReducer exampleCanvasState
                (LAYER_PROPERTY_CHANGED ''b'' (Set_opacity (1/2))))) = 2"
  using layer_actions_frame [of "LAYER_PROPERTY_CHANGED ''b'' (Set_opacity (1/2))" "''b''" "[]"
          "Set_opacity (1/2)" "Shadow_blur 0" "Border_width 0" exampleCanvasState]
  by (simp add: exampleCanvasState_def exampleLayer_def)

section \<open>Properties of the project rotation\<close>

lemma js_rem_quarter_turn:
  "r \<in> {0, 90, 180, 270} \<Longrightarrow>
     js_rem (r + 90) 360 = (r + 90) mod 360 \<and> (r + 90) mod 360 \<in> {0, 90, 180, 270}"
  by (auto simp: js_rem_def)

lemma rotated_rotation:
  "projectRotation (canvasStateReducer cs PROJECT_ROTATED) = js_rem (projectRotation cs + 90) 360"
  by (simp add: Let_def)

lemma rotateProject_fields:
  assumes "backgroundElement (canvasState st) = Some e"
  shows "projectRotation (canvasState (rotateProject msr st))
           = js_rem (projectRotation (canvasState st) + 90) 360"
    and "backgroundElement (canvasState (rotateProject msr st)) = Some e"
    and "masterWidth (rotateProject msr st)
           = (if js_rem (projectRotation (canvasState st) + 90) 360 \<in> {90, 270}
              then naturalHeight e else naturalWidth e)"
    and "masterHeight (rotateProject msr st)
           = (if js_rem (projectRotation (canvasState st) + 90) 360 \<in> {90, 270}
              then naturalWidth e else naturalHeight e)"
    and "backgroundCanvas (rotateProject msr st)
           = newCanvasSize (masterWidth (rotateProject msr st)) (masterHeight (rotateProject msr st))"
  using assms by (simp_all add: rotateProject_def setBackground_def dispatch_def Let_def)

lemma newCanvasSize_small:
  assumes "real_of_int nw \<le> 1920"
  shows "newCanvasSize (real_of_int nw) (real_of_int nh)
           = \<lparr>width = real_of_int nw, height = real_of_int nh\<rparr>"
  using assms by (simp add: newCanvasSize_def MAX_CANVAS_WIDTH_def Let_def)

text \<open>
  C8, as stated: after a rotation to 90 the background canvas has its width and height
  exchanged. It fails for a background wider than 1920: a 2000 by 1000 background gives
  a 1920 by 960 canvas at rotation 0, and rotating the project gives a 1000 by 2000
  canvas, not 960 by 1920, since only the width is limited.
\<close>

theorem rotateProject_wide_background_counterexample:
  "projectRotation (canvasState wideApp) = 0
   \<and> backgroundCanvas wideApp = \<lparr>width = 1920, height = 960\<rparr>
   \<and> projectRotation (canvasState (rotateProject exampleMeasure wideApp)) = 90
   \<and> backgroundCanvas (rotateProject exampleMeasure wideApp) = \<lparr>width = 1000, height = 2000\<rparr>
   \<and> backgroundCanvas (rotateProject exampleMeasure wideApp)
       \<noteq> \<lparr>width = height (backgroundCanvas wideApp), height = width (backgroundCanvas wideApp)\<rparr>"
proof -
  have bg: "backgroundElement (canvasState wideApp)
              = Some \<lparr>naturalWidth = 2000, naturalHeight = 1000\<rparr>"
    by (simp add: wideApp_def setBackground_def dispatch_def Let_def exampleApp_def
          exampleCanvasState_def)
  have r0: "projectRotation (canvasState wideApp) = 0"
    by (simp add: wideApp_def setBackground_def dispatch_def Let_def exampleApp_def
          exampleCanvasState_def)
  have c0: "backgroundCanvas wideApp = \<lparr>width = 1920, height = 960\<rparr>"
    by (simp add: wideApp_def setBackground_def dispatch_def Let_def exampleApp_def
          exampleCanvasState_def newCanvasSize_def MAX_CANVAS_WIDTH_def)
  have r1: "projectRotation (canvasState (rotateProject exampleMeasure wideApp)) = 90"
    by (simp add: rotateProject_fields(1) [OF bg] r0 js_rem_def)
  have c1: "backgroundCanvas (rotateProject exampleMeasure wideApp)
              = \<lparr>width = 1000, height = 2000\<rparr>"
    by (simp add: rotateProject_fields(3-5) [OF bg] r0 js_rem_def newCanvasSize_def
          MAX_CANVAS_WIDTH_def)
  show ?thesis by (simp add: r0 c0 r1 c1)
qed

text \<open>
  C8, amended: each \<^verbatim>\<open>PROJECT_ROTATED\<close> action adds 90 degrees modulo 360 to a rotation
  that is 0, 90, 180 or 270, so that four rotations of the project return to the initial
  value. After a rotation of the project the master size is the natural size of the
  background, with width and height exchanged exactly when the new rotation is 90 or
  270, and the background canvas has the size that \<open>newCanvasSize\<close> gives for it, in which
  the width is at most 1920. When neither natural dimension exceeds 1920 the background
  canvas has the natural size, exchanged exactly when the new rotation is 90 or 270.
\<close>

theorem rotateProject_cycle_and_size:
  assumes "projectRotation (canvasState st) \<in> {0, 90, 180, 270}"
    and "backgroundElement (canvasState st) = Some e"
  shows "projectRotation (canvasStateReducer (canvasState st) PROJECT_ROTATED)
           = (projectRotation (canvasState st) + 90) mod 360
       \<and> projectRotation (canvasState (rotateProject msr st))
           = (projectRotation (canvasState st) + 90) mod 360
       \<and> projectRotation (canvasState ((rotateProject msr ^^ 4) st))
           = projectRotation (canvasState st)
       \<and> masterWidth (rotateProject msr st)
           = (if projectRotation (canvasState (rotateProject msr st)) \<in> {90, 270}
              then naturalHeight e else naturalWidth e)
       \<and> masterHeight (rotateProject msr st)
           = (if projectRotation (canvasState (rotateProject msr st)) \<in> {90, 270}
              then naturalWidth e else naturalHeight e)
       \<and> backgroundCanvas (rotateProject msr st)
           = newCanvasSize (masterWidth (rotateProject msr st)) (masterHeight (rotateProject msr st))
       \<and> (\<forall>nw nh. naturalWidth e = real_of_int nw \<and> naturalHeight e = real_of_int nh
              \<and> nw \<le> 1920 \<and> nh \<le> 1920 \<longrightarrow>
            backgroundCanvas (rotateProject msr st)
              = (if projectRotation (canvasState (rotateProject msr st)) \<in> {90, 270}
                 then \<lparr>width = naturalHeight e, height = naturalWidth e\<rparr>
                 else \<lparr>width = naturalWidth e, height = naturalHeight e\<rparr>))"
proof -
  let ?r = "projectRotation (canvasState st)"
  have step: "\<And>s. backgroundElement (canvasState s) = Some e \<Longrightarrow>
      projectRotation (canvasState s) \<in> {0, 90, 180, 270} \<Longrightarrow>
      projectRotation (canvasState (rotateProject msr s))
        = (projectRotation (canvasState s) + 90) mod 360
      \<and> backgroundElement (canvasState (rotateProject msr s)) = Some e
      \<and> projectRotation (canvasState (rotateProject msr s)) \<in> {0, 90, 180, 270}"
  proof -
    fix s :: app
    assume b: "backgroundElement (canvasState s) = Some e"
      and r: "projectRotation (canvasState s) \<in> {0, 90, 180, 270}"
    show "projectRotation (canvasState (rotateProject msr s))
        = (projectRotation (canvasState s) + 90) mod 360
      \<and> backgroundElement (canvasState (rotateProject msr s)) = Some e
      \<and> projectRotation (canvasState (rotateProject msr s)) \<in> {0, 90, 180, 270}"
      using js_rem_quarter_turn [OF r]
      by (simp only: rotateProject_fields(1,2) [OF b])
  qed
  have c1: "projectRotation (canvasStateReducer (canvasState st) PROJECT_ROTATED) = (?r + 90) mod 360"
    using js_rem_quarter_turn [OF assms(1)] by (simp only: rotated_rotation)
  define s1 where "s1 = rotateProject msr st"
  define s2 where "s2 = rotateProject msr s1"
  define s3 where "s3 = rotateProject msr s2"
  define s4 where "s4 = rotateProject msr s3"
  have p1: "projectRotation (canvasState s1) = (?r + 90) mod 360
            \<and> backgroundElement (canvasState s1) = Some e
            \<and> projectRotation (canvasState s1) \<in> {0, 90, 180, 270}"
    unfolding s1_def using step assms by blast
  have p2: "projectRotation (canvasState s2) = (projectRotation (canvasState s1) + 90) mod 360
            \<and> backgroundElement (canvasState s2) = Some e
            \<and> projectRotation (canvasState s2) \<in> {0, 90, 180, 270}"
    unfolding s2_def using step p1 by blast
  have p3: "projectRotation (canvasState s3) = (projectRotation (canvasState s2) + 90) mod 360
            \<and> backgroundElement (canvasState s3) = Some e
            \<and> projectRotation (canvasState s3) \<in> {0, 90, 180, 270}"
    unfolding s3_def using step p2 by blast
  have p4: "projectRotation (canvasState s4) = (projectRotation (canvasState s3) + 90) mod 360"
    unfolding s4_def using step p3 by blast
  have four: "(rotateProject msr ^^ 4) st = s4"
    by (simp add: s4_def s3_def s2_def s1_def eval_nat_numeral)
  have "projectRotation (canvasState s4) = (?r + 360) mod 360"
    using p1 p2 p3 p4 by (simp add: mod_simps)
  then have cyc: "projectRotation (canvasState ((rotateProject msr ^^ 4) st)) = ?r"
    unfolding four using assms(1) by auto
  have r1: "projectRotation (canvasState (rotateProject msr st)) = (?r + 90) mod 360"
    using p1 by (simp add: s1_def)
  have mw: "masterWidth (rotateProject msr st)
           = (if projectRotation (canvasState (rotateProject msr st)) \<in> {90, 270}
              then naturalHeight e else naturalWidth e)"
    by (simp only: rotateProject_fields(1,3) [OF assms(2)])
  have mh: "masterHeight (rotateProject msr st)
           = (if projectRotation (canvasState (rotateProject msr st)) \<in> {90, 270}
              then naturalWidth e else naturalHeight e)"
    by (simp only: rotateProject_fields(1,4) [OF assms(2)])
  have bc: "backgroundCanvas (rotateProject msr st)
           = newCanvasSize (masterWidth (rotateProject msr st)) (masterHeight (rotateProject msr st))"
    using assms(2) by (rule rotateProject_fields)
  have small: "\<forall>nw nh. naturalWidth e = real_of_int nw \<and> naturalHeight e = real_of_int nh
              \<and> nw \<le> 1920 \<and> nh \<le> 1920 \<longrightarrow>
            backgroundCanvas (rotateProject msr st)
              = (if projectRotation (canvasState (rotateProject msr st)) \<in> {90, 270}
                 then \<lparr>width = naturalHeight e, height = naturalWidth e\<rparr>
                 else \<lparr>width = naturalWidth e, height = naturalHeight e\<rparr>)"
    unfolding bc mw mh by (auto simp: newCanvasSize_small)
  from c1 r1 cyc mw mh bc small show ?thesis by blast
qed

theorem rotateProject_cycle_and_size_witness:
  "projectRotation (canvasState exampleApp) \<in> {0, 90, 180, 270}
   \<and> projectRotation (canvasState (rotateProject exampleMeasure exampleApp)) = 90
   \<and> projectRotation (canvasState ((rotateProject exampleMeasure ^^ 4) exampleApp)) = 0
   \<and> backgroundCanvas (rotateProject exampleMeasure exampleApp) = \<lparr>width = 800, height = 1000\<rparr>"
proof -
  have h1: "projectRotation (canvasState exampleApp) \<in> {0, 90, 180, 270}"
    by (simp add: exampleApp_def exampleCanvasState_def)
  have h2: "backgroundElement (canvasState exampleApp)
              = Some \<lparr>naturalWidth = 1000, naturalHeight = 800\<rparr>"
    by (simp add: exampleApp_def exampleCanvasState_def)
  have r0: "projectRotation (canvasState exampleApp) = 0"
    by (simp add: exampleApp_def exampleCanvasState_def)
  note T = rotateProject_cycle_and_size [OF h1 h2, of exampleMeasure]
  from T have a: "projectRotation (canvasState (rotateProject exampleMeasure exampleApp)) = 90"
    by (simp add: r0)
  from T have b: "projectRotation (canvasState ((rotateProject exampleMeasure ^^ 4) exampleApp)) = 0"
    by (simp add: r0)
  from T have "naturalWidth \<lparr>naturalWidth = 1000, naturalHeight = 800\<rparr> = real_of_int 1000
       \<and> naturalHeight \<lparr>naturalWidth = 1000, naturalHeight = 800\<rparr> = real_of_int 800
       \<and> (1000::int) \<le> 1920 \<and> (800::int) \<le> 1920 \<longrightarrow>
      backgroundCanvas (rotateProject exampleMeasure exampleApp)
        = (if projectRotation (canvasState (rotateProject exampleMeasure exampleApp)) \<in> {90, 270}
           then \<lparr>width = naturalHeight \<lparr>naturalWidth = 1000, naturalHeight = 800\<rparr>,
                 height = naturalWidth \<lparr>naturalWidth = 1000, naturalHeight = 800\<rparr>\<rparr>
           else \<lparr>width = naturalWidth \<lparr>naturalWidth = 1000, naturalHeight = 800\<rparr>,
                 height = naturalHeight \<lparr>naturalWidth = 1000, naturalHeight = 800\<rparr>\<rparr>)"
    by blast
  then have c: "backgroundCanvas (rotateProject exampleMeasure exampleApp)
                  = \<lparr>width = 800, height = 1000\<rparr>"
    by (simp add: a)
  show ?thesis using h1 a b c by simp
qed

section \<open>Properties of the mipmap chain\<close>

lemma mipLoop_chain:
  "Suc i < length ((w, h) # mipLoop w h) \<Longrightarrow>
     ((w, h) # mipLoop w h) ! Suc i
       = (max 32 (fst (((w, h) # mipLoop w h) ! i) div 2),
          max 32 (snd (((w, h) # mipLoop w h) ! i) div 2))
     \<and> 32 < fst (((w, h) # mipLoop w h) ! i) \<and> 32 < snd (((w, h) # mipLoop w h) ! i)"
proof (induction w h arbitrary: i rule: mipLoop.induct)
  case (1 w h)
  show ?case
  proof (cases "w > 32 \<and> h > 32")
    case False
    then have "mipLoop w h = []" by (subst mipLoop.simps) auto
    with "1.prems" show ?thesis by simp
  next
    case True
    define w' where "w' = max 32 (w div 2)"
    define h' where "h' = max 32 (h div 2)"
    have unfold: "mipLoop w h = (w', h') # mipLoop w' h'"
      using True by (subst mipLoop.simps) (simp add: Let_def w'_def h'_def)
    show ?thesis
    proof (cases i)
      case 0
      then show ?thesis using True unfold by (simp add: w'_def h'_def)
    next
      case (Suc j)
      have "Suc j < length ((w', h') # mipLoop w' h')"
        using "1.prems" unfold Suc by simp
      from "1.IH" [OF True w'_def h'_def this]
      show ?thesis using unfold Suc by simp
    qed
  qed
qed

lemma round_le_int: "r \<le> real_of_int n \<Longrightarrow> round r \<le> n"
  using round_mono [of r "real_of_int n"] by simp

lemma mipScale_le_1: "mipScale sw sh maxD \<le> 1"
  by (simp add: mipScale_def)

lemma mipScale_fits:
  assumes "0 \<le> sw" "0 \<le> sh" "sw \<le> maxD" "sh \<le> maxD"
  shows "mipScale sw sh maxD = 1"
proof -
  have a: "1 \<le> (if sw = 0 then 1 else real_of_int maxD / real_of_int sw)"
    using assms by (simp add: le_divide_eq)
  have b: "1 \<le> (if sh = 0 then 1 else real_of_int maxD / real_of_int sh)"
    using assms by (simp add: le_divide_eq)
  show ?thesis unfolding mipScale_def using a b by (simp add: min_def)
qed

lemma mipScale_wide:
  assumes "0 \<le> sh" "0 < maxD" "maxD < sw" "sh \<le> sw"
  shows "mipScale sw sh maxD = real_of_int maxD / real_of_int sw"
proof -
  have sw: "0 < real_of_int sw" using assms by simp
  have a: "real_of_int maxD / real_of_int sw < 1" using assms sw by (simp add: divide_less_eq)
  have b: "real_of_int maxD / real_of_int sw
             \<le> (if sh = 0 then 1 else real_of_int maxD / real_of_int sh)"
  proof (cases "sh = 0")
    case True then show ?thesis using a by simp
  next
    case False
    then have "0 < real_of_int sh" using assms by simp
    then show ?thesis using False assms sw by (simp add: frac_le)
  qed
  have c: "sw \<noteq> 0" using assms by simp
  show ?thesis unfolding mipScale_def using a b c by (simp add: min_def)
qed

lemma mipScale_tall:
  assumes "0 \<le> sw" "0 < maxD" "maxD < sh" "sw \<le> sh"
  shows "mipScale sw sh maxD = real_of_int maxD / real_of_int sh"
proof -
  have sh: "0 < real_of_int sh" using assms by simp
  have a: "real_of_int maxD / real_of_int sh < 1" using assms sh by (simp add: divide_less_eq)
  have b: "real_of_int maxD / real_of_int sh
             \<le> (if sw = 0 then 1 else real_of_int maxD / real_of_int sw)"
  proof (cases "sw = 0")
    case True then show ?thesis using a by simp
  next
    case False
    then have "0 < real_of_int sw" using assms by simp
    then show ?thesis using False assms sh by (simp add: frac_le)
  qed
  have c: "sh \<noteq> 0" using assms by simp
  show ?thesis unfolding mipScale_def using a b c by (simp add: min_def)
qed

lemma mipScale_bounds:
  assumes "0 \<le> sw" "0 \<le> sh" "0 < maxD"
  shows "real_of_int sw * mipScale sw sh maxD \<le> real_of_int maxD"
    and "real_of_int sh * mipScale sw sh maxD \<le> real_of_int maxD"
proof -
  have s1: "mipScale sw sh maxD \<le> (if sw = 0 then 1 else real_of_int maxD / real_of_int sw)"
    by (simp add: mipScale_def)
  have s2: "mipScale sw sh maxD \<le> (if sh = 0 then 1 else real_of_int maxD / real_of_int sh)"
    by (simp add: mipScale_def)
  show "real_of_int sw * mipScale sw sh maxD \<le> real_of_int maxD"
  proof (cases "sw = 0")
    case True then show ?thesis using assms by simp
  next
    case False
    then have pos: "0 < real_of_int sw" using assms by simp
    from s1 False have "mipScale sw sh maxD \<le> real_of_int maxD / real_of_int sw" by simp
    then show ?thesis using pos by (simp add: pos_le_divide_eq mult.commute)
  qed
  show "real_of_int sh * mipScale sw sh maxD \<le> real_of_int maxD"
  proof (cases "sh = 0")
    case True then show ?thesis using assms by simp
  next
    case False
    then have pos: "0 < real_of_int sh" using assms by simp
    from s2 False have "mipScale sw sh maxD \<le> real_of_int maxD / real_of_int sh" by simp
    then show ?thesis using pos by (simp add: pos_le_divide_eq mult.commute)
  qed
qed

lemma base_level:
  assumes "0 \<le> sw" and "0 \<le> sh" and "0 < maxD"
  shows "hd (generateMipmaps sw sh maxD)
           = (round (real_of_int sw * mipScale sw sh maxD), round (real_of_int sh * mipScale sw sh maxD))"
    and "fst (hd (generateMipmaps sw sh maxD)) \<le> sw"
    and "snd (hd (generateMipmaps sw sh maxD)) \<le> sh"
    and "sw \<le> maxD \<and> sh \<le> maxD \<longrightarrow> hd (generateMipmaps sw sh maxD) = (sw, sh)"
    and "maxD < sw \<and> sh \<le> sw \<longrightarrow>
           hd (generateMipmaps sw sh maxD)
             = (maxD, round (real_of_int sh * (real_of_int maxD / real_of_int sw)))"
    and "maxD < sh \<and> sw \<le> sh \<longrightarrow>
           hd (generateMipmaps sw sh maxD)
             = (round (real_of_int sw * (real_of_int maxD / real_of_int sh)), maxD)"
proof -
  show h: "hd (generateMipmaps sw sh maxD)
           = (round (real_of_int sw * mipScale sw sh maxD), round (real_of_int sh * mipScale sw sh maxD))"
    by (simp add: generateMipmaps_def Let_def)
  have "real_of_int sw * mipScale sw sh maxD \<le> real_of_int sw * 1"
    using assms(1) mipScale_le_1 [of sw sh maxD] by (intro mult_left_mono) simp_all
  then show "fst (hd (generateMipmaps sw sh maxD)) \<le> sw"
    unfolding h by (simp add: round_le_int)
  have "real_of_int sh * mipScale sw sh maxD \<le> real_of_int sh * 1"
    using assms(2) mipScale_le_1 [of sw sh maxD] by (intro mult_left_mono) simp_all
  then show "snd (hd (generateMipmaps sw sh maxD)) \<le> sh"
    unfolding h by (simp add: round_le_int)
  show "sw \<le> maxD \<and> sh \<le> maxD \<longrightarrow> hd (generateMipmaps sw sh maxD) = (sw, sh)"
    unfolding h using assms by (auto simp: mipScale_fits)
  show "maxD < sw \<and> sh \<le> sw \<longrightarrow>
           hd (generateMipmaps sw sh maxD)
             = (maxD, round (real_of_int sh * (real_of_int maxD / real_of_int sw)))"
  proof
    assume a: "maxD < sw \<and> sh \<le> sw"
    then have "sw \<noteq> 0" using assms by simp
    then show "hd (generateMipmaps sw sh maxD)
             = (maxD, round (real_of_int sh * (real_of_int maxD / real_of_int sw)))"
      unfolding h using a assms by (simp add: mipScale_wide)
  qed
  show "maxD < sh \<and> sw \<le> sh \<longrightarrow>
           hd (generateMipmaps sw sh maxD)
             = (round (real_of_int sw * (real_of_int maxD / real_of_int sh)), maxD)"
  proof
    assume a: "maxD < sh \<and> sw \<le> sh"
    then have "sh \<noteq> 0" using assms by simp
    then show "hd (generateMipmaps sw sh maxD)
             = (round (real_of_int sw * (real_of_int maxD / real_of_int sh)), maxD)"
      unfolding h using a assms by (simp add: mipScale_tall)
  qed
qed

text \<open>
  C9, as stated: every level is at least 32 pixels on its smaller dimension. It fails for
  a source smaller than that: a 10 by 10 image gives the single level 10 by 10.
\<close>

theorem generateMipmaps_small_source_counterexample:
  "generateMipmaps 10 10 2048 = [(10, 10)]
   \<and> min (fst (hd (generateMipmaps 10 10 2048))) (snd (hd (generateMipmaps 10 10 2048))) < 32"
  by (simp add: generateMipmaps_def mipScale_def mipLoop.simps Let_def)

text \<open>
  C9, amended: for every source image and positive \<open>maxDimension\<close> (2048 at every
  call), the result is a sequence that starts with the base level. The base level is the
  source scaled by \<open>min (maxDimension / width) (maxDimension / height) 1\<close> and rounded:
  it is the source itself when neither dimension of the source exceeds \<open>maxDimension\<close>,
  and otherwise its larger dimension is \<open>maxDimension\<close> and the other one is scaled by
  the same factor; it is never larger than the source and never larger than
  \<open>maxDimension\<close>. Each later level is half its predecessor, rounded down, in each
  dimension, and not below 32: it is no larger than its predecessor and at least 32
  pixels in both dimensions. The base level can be smaller than 32.
\<close>

theorem generateMipmaps_levels:
  assumes "0 \<le> sourceWidth" and "0 \<le> sourceHeight" and "0 < maxDimension"
  shows "generateMipmaps sourceWidth sourceHeight maxDimension \<noteq> []
       \<and> hd (generateMipmaps sourceWidth sourceHeight maxDimension)
           = (round (real_of_int sourceWidth * mipScale sourceWidth sourceHeight maxDimension),
              round (real_of_int sourceHeight * mipScale sourceWidth sourceHeight maxDimension))
       \<and> fst (hd (generateMipmaps sourceWidth sourceHeight maxDimension)) \<le> maxDimension
       \<and> snd (hd (generateMipmaps sourceWidth sourceHeight maxDimension)) \<le> maxDimension
       \<and> fst (hd (generateMipmaps sourceWidth sourceHeight maxDimension)) \<le> sourceWidth
       \<and> snd (hd (generateMipmaps sourceWidth sourceHeight maxDimension)) \<le> sourceHeight
       \<and> (sourceWidth \<le> maxDimension \<and> sourceHeight \<le> maxDimension \<longrightarrow>
            hd (generateMipmaps sourceWidth sourceHeight maxDimension)
              = (sourceWidth, sourceHeight))
       \<and> (maxDimension < sourceWidth \<and> sourceHeight \<le> sourceWidth \<longrightarrow>
            hd (generateMipmaps sourceWidth sourceHeight maxDimension)
              = (maxDimension,
                 round (real_of_int sourceHeight
                          * (real_of_int maxDimension / real_of_int sourceWidth))))
       \<and> (maxDimension < sourceHeight \<and> sourceWidth \<le> sourceHeight \<longrightarrow>
            hd (generateMipmaps sourceWidth sourceHeight maxDimension)
              = (round (real_of_int sourceWidth
                          * (real_of_int maxDimension / real_of_int sourceHeight)),
                 maxDimension))
       \<and> (\<forall>i. Suc i < length (generateMipmaps sourceWidth sourceHeight maxDimension) \<longrightarrow>
            (let prev = generateMipmaps sourceWidth sourceHeight maxDimension ! i;
                 next = generateMipmaps sourceWidth sourceHeight maxDimension ! Suc i
             in next = (max 32 (fst prev div 2), max 32 (snd prev div 2))
                \<and> fst next \<le> fst prev \<and> snd next \<le> snd prev
                \<and> 32 \<le> fst next \<and> 32 \<le> snd next))"
proof -
  define bw where "bw = round (real_of_int sourceWidth * mipScale sourceWidth sourceHeight maxDimension)"
  define bh where "bh = round (real_of_int sourceHeight * mipScale sourceWidth sourceHeight maxDimension)"
  have g: "generateMipmaps sourceWidth sourceHeight maxDimension = (bw, bh) # mipLoop bw bh"
    by (simp add: generateMipmaps_def Let_def bw_def bh_def)
  have ne: "generateMipmaps sourceWidth sourceHeight maxDimension \<noteq> []"
    by (simp add: g)
  have b1: "fst (hd (generateMipmaps sourceWidth sourceHeight maxDimension)) \<le> maxDimension"
    unfolding g bw_def using mipScale_bounds(1) [OF assms] by (simp add: round_le_int)
  have b2: "snd (hd (generateMipmaps sourceWidth sourceHeight maxDimension)) \<le> maxDimension"
    unfolding g bh_def using mipScale_bounds(2) [OF assms] by (simp add: round_le_int)
  have chain: "\<forall>i. Suc i < length (generateMipmaps sourceWidth sourceHeight maxDimension) \<longrightarrow>
            (let prev = generateMipmaps sourceWidth sourceHeight maxDimension ! i;
                 next = generateMipmaps sourceWidth sourceHeight maxDimension ! Suc i
             in next = (max 32 (fst prev div 2), max 32 (snd prev div 2))
                \<and> fst next \<le> fst prev \<and> snd next \<le> snd prev
                \<and> 32 \<le> fst next \<and> 32 \<le> snd next)"
    unfolding g
  proof (intro allI impI)
    fix i assume "Suc i < length ((bw, bh) # mipLoop bw bh)"
    from mipLoop_chain [OF this]
    show "let prev = ((bw, bh) # mipLoop bw bh) ! i;
              next = ((bw, bh) # mipLoop bw bh) ! Suc i
          in next = (max 32 (fst prev div 2), max 32 (snd prev div 2))
             \<and> fst next \<le> fst prev \<and> snd next \<le> snd prev
             \<and> 32 \<le> fst next \<and> 32 \<le> snd next"
      unfolding Let_def by auto
  qed
  note B = base_level [OF assms]
  from ne B(1) b1 b2 B(2) B(3) B(4) B(5) B(6) chain show ?thesis
    by (intro conjI)
qed

theorem generateMipmaps_levels_witness:
  "generateMipmaps 4096 1024 2048 = [(2048, 512), (1024, 256), (512, 128), (256, 64), (128, 32)]
   \<and> hd (generateMipmaps 4096 1024 2048) = (2048, 512)
   \<and> fst (hd (generateMipmaps 4096 1024 2048)) \<le> 4096
   \<and> snd (hd (generateMipmaps 4096 1024 2048)) \<le> 1024
   \<and> 32 \<le> snd (generateMipmaps 4096 1024 2048 ! Suc 3)"
proof -
  have s: "mipScale 4096 1024 2048 = 1 / 2" by (simp add: mipScale_def)
  have v: "generateMipmaps 4096 1024 2048
             = [(2048, 512), (1024, 256), (512, 128), (256, 64), (128, 32)]"
    by (simp add: generateMipmaps_def s mipLoop.simps Let_def)
  have l: "Suc 3 < length (generateMipmaps 4096 1024 2048)" by (simp add: v)
  have p: "(0::int) \<le> 4096" "(0::int) \<le> 1024" "(0::int) < 2048" by simp_all
  note T = generateMipmaps_levels [OF p]
  note T4 = T [THEN conjunct2, THEN conjunct2, THEN conjunct2, THEN conjunct2]
  note T7 = T4 [THEN conjunct2, THEN conjunct2, THEN conjunct2]
  have h: "hd (generateMipmaps 4096 1024 2048) = (2048, 512)"
    using T7 [THEN conjunct1] by simp
  have w: "fst (hd (generateMipmaps 4096 1024 2048)) \<le> 4096"
          "snd (hd (generateMipmaps 4096 1024 2048)) \<le> 1024"
    using T4 [THEN conjunct1] T4 [THEN conjunct2, THEN conjunct1] by blast+
  have c: "32 \<le> snd (generateMipmaps 4096 1024 2048 ! Suc 3)"
    using T7 [THEN conjunct2, THEN conjunct2, rule_format, OF l] by (simp add: Let_def)
  from v h w c show ?thesis by simp
qed

section \<open>Properties of the compositor\<close>





text \<open>
  The cache surface that \<open>updateLayerCache\<close> builds for an image layer is sound when the
  base mipmap is at least one pixel wide and high, the padding is not negative and the
  padded size is in the range of a canvas dimension.
\<close>

lemma canvasDimension_floor:
  assumes "0 \<le> v" and "v < 2147483648"
  shows "canvasDimension dflt v = real_of_int \<lfloor>v\<rfloor>"
proof -
  have a: "0 \<le> \<lfloor>v\<rfloor>" using assms(1) by simp
  have b: "\<lfloor>v\<rfloor> < 2147483648" using assms(2) by (simp add: floor_less_iff)
  have "toUint32 v = \<lfloor>v\<rfloor>"
    using a b assms(1) by (simp add: toUint32_def)
  then show ?thesis using b by (simp add: canvasDimension_def Let_def)
qed

lemma canvasDimension_pos:
  assumes "1 \<le> v" and "v < 2147483648"
  shows "0 < canvasDimension dflt v"
proof -
  have "0 \<le> v" using assms(1) by simp
  then have c: "canvasDimension dflt v = real_of_int \<lfloor>v\<rfloor>"
    using assms(2) by (rule canvasDimension_floor)
  have "1 \<le> \<lfloor>v\<rfloor>" using assms(1) by (simp add: le_floor_iff)
  then show ?thesis unfolding c by simp
qed

lemma soundCache_image:
  assumes "layer_type l = ''image''" and "mipmaps l = Some (b # rest)"
    and "cache l = None \<or> (\<exists>c. cache l = Some c \<and> \<not> isValid c)"
    and "1 \<le> width b" and "1 \<le> height b" and "0 \<le> cachePadding l"
    and "width b + cachePadding l * 2 < 2147483648"
    and "height b + cachePadding l * 2 < 2147483648"
  shows "soundCache msr l"
proof -
  have r: "specRebuilt msr l = updateLayerCache msr l"
    using assms(3) by (auto simp: specRebuilt_def)
  have w: "0 < canvasDimension 300 (width b + cachePadding l * 2)"
    using assms(4,6,7) by (intro canvasDimension_pos) simp_all
  have h: "0 < canvasDimension 150 (height b + cachePadding l * 2)"
    using assms(5,6,8) by (intro canvasDimension_pos) simp_all
  show ?thesis
    unfolding soundCache_def r using assms(1,2,4,5) w h
    by (simp add: updateLayerCache_def buildCache_def Let_def)
qed





section \<open>Properties of the effect cache\<close>

lemma cachePadding_textSize [simp]:
  "cachePadding (layer\<lparr>textWidth := w, textHeight := h\<rparr>) = cachePadding layer"
  by (simp add: cachePadding_def Let_def)

text \<open>
  C6, as stated for both builders of the effect cache: the padding has twice the blur of
  the shadow, and the cache surface is the content size plus twice the padding. It fails
  in the worker, whose \<open>renderLayer\<close> takes 2.5 times the blur and rounds the size of
  the cache: for a shadow of blur 10 and offsets 10 its padding is 35, not 30, and a
  content of 100 by 100 gets a cache of 170 by 170. It fails in \<open>updateLayerCache\<close>
  too when the padded size is not an integer: for a shadow of blur 10.2 and offsets 10
  the padding is 30.4, and the canvas of a content of 100 by 100 is 160 by 160, not 160.8
  by 160.8, while the content is drawn about the point \<open>(80.4, 80.4)\<close>.
\<close>

theorem cache_padding_counterexample:
  "workerPadding ''image'' shadowedLayer = 35
   \<and> workerPadding ''image'' shadowedLayer
       \<noteq> 2 * sh_blur (shadow shadowedLayer)
          + max \<bar>sh_offsetX (shadow shadowedLayer)\<bar> \<bar>sh_offsetY (shadow shadowedLayer)\<bar>
   \<and> renderLayer exampleRaster ''image'' shadowedLayer 100 100
       = Inr \<lparr>width = 170, height = 170, translate = \<lparr>x = 85, y = 85\<rparr>,
              filters = [DropShadow 10 10 10 ''#000000'', Brightness 1, Saturate 1],
              globalAlpha = 1,
              drawn = [DrawImage exampleRaster (- 50) (- 50) 100 100]\<rparr>
   \<and> cachePadding softShadowLayer = 152 / 5
   \<and> cache (updateLayerCache exampleMeasure softShadowLayer)
       = Some \<lparr>cache_canvas = Some
                 \<lparr>width = 160, height = 160, translate = \<lparr>x = 402 / 5, y = 402 / 5\<rparr>,
                  filters = [DropShadow 10 10 (51 / 5) ''#000000'', Brightness 1, Saturate 1,
                             Contrast 1],
                  globalAlpha = 1,
                  drawn = [DrawImage exampleRaster (- 50) (- 50) 100 100]\<rparr>,
               isValid = True\<rparr>
   \<and> (160::real) \<noteq> width exampleRaster + 2 * cachePadding softShadowLayer"
proof -
  have w: "workerPadding ''image'' shadowedLayer = 35"
    by (simp add: workerPadding_def shadowedLayer_def exampleLayer_def Let_def)
  have r: "renderLayer exampleRaster ''image'' shadowedLayer 100 100
       = Inr \<lparr>width = 170, height = 170, translate = \<lparr>x = 85, y = 85\<rparr>,
              filters = [DropShadow 10 10 10 ''#000000'', Brightness 1, Saturate 1],
              globalAlpha = 1,
              drawn = [DrawImage exampleRaster (- 50) (- 50) 100 100]\<rparr>"
    by (simp add: workerPadding_def renderLayer_def shadowedLayer_def exampleLayer_def Let_def
        borderFilters_def shadowFilter_def)
  have p: "cachePadding softShadowLayer = 152 / 5"
    by (simp add: cachePadding_def softShadowLayer_def exampleLayer_def Let_def)
  have d: "canvasDimension 300 (804 / 5) = 160" "canvasDimension 150 (804 / 5) = 160"
    by (simp_all add: canvasDimension_def toUint32_def Let_def)
  have c: "cache (updateLayerCache exampleMeasure softShadowLayer)
       = Some \<lparr>cache_canvas = Some
                 \<lparr>width = 160, height = 160, translate = \<lparr>x = 402 / 5, y = 402 / 5\<rparr>,
                  filters = [DropShadow 10 10 (51 / 5) ''#000000'', Brightness 1, Saturate 1,
                             Contrast 1],
                  globalAlpha = 1,
                  drawn = [DrawImage exampleRaster (- 50) (- 50) 100 100]\<rparr>,
               isValid = True\<rparr>"
    by (simp add: updateLayerCache_def buildCache_def softShadowLayer_def exampleLayer_def
          exampleRaster_def cachePadding_def borderFilters_def shadowFilter_def contrastOr1_def
          canvasDimension_def toUint32_def Let_def)
  show ?thesis
    unfolding w r p c by (simp add: shadowedLayer_def exampleLayer_def exampleRaster_def)
qed

text \<open>
  C6, amended: in \<open>updateLayerCache\<close> the padding is twice the blur of the shadow plus
  the larger absolute offset when the shadow is enabled, plus twice the border width when
  the border of an image layer is enabled. For content of positive size the width and the
  height of the cache canvas are the content size plus twice the padding, converted to a
  canvas dimension: truncated to an integer when it is not negative and below \<open>2 ^ 31\<close>,
  so equal to it exactly when it is an integer. The content is drawn centred about half
  of the size before the conversion. In the worker's \<open>renderLayer\<close> the blur counts 2.5
  times, and the cache size is the content size plus twice the padding, rounded.
\<close>

theorem cache_padding_and_size:
  "cachePadding layer
     = (if sh_enabled (shadow layer)
        then 2 * sh_blur (shadow layer)
             + max \<bar>sh_offsetX (shadow layer)\<bar> \<bar>sh_offsetY (shadow layer)\<bar>
        else 0)
       + (if layer_type layer = ''image'' \<and> bd_enabled (border layer)
          then bd_width (border layer) * 2 else 0)
   \<and> (layer_type layer = ''image'' \<and> mipmaps layer = Some (baseProxy # rest)
        \<and> 0 < width baseProxy \<and> 0 < height baseProxy \<longrightarrow>
        (\<exists>cv. cache (updateLayerCache msr layer) = Some \<lparr>cache_canvas = Some cv, isValid = True\<rparr>
           \<and> width cv = canvasDimension 300 (width baseProxy + 2 * cachePadding layer)
           \<and> height cv = canvasDimension 150 (height baseProxy + 2 * cachePadding layer)
           \<and> translate cv = \<lparr>x = (width baseProxy + 2 * cachePadding layer) / 2,
                               y = (height baseProxy + 2 * cachePadding layer) / 2\<rparr>
           \<and> drawn cv = [DrawImage baseProxy (- width baseProxy / 2) (- height baseProxy / 2)
                           (width baseProxy) (height baseProxy)]))
   \<and> (layer_type layer \<noteq> ''image''
        \<and> 0 < maxWidth (getTextBlockMetrics msr (layer_text layer) (font layer) (fontSize layer))
        \<and> 0 < totalHeight (getTextBlockMetrics msr (layer_text layer) (font layer) (fontSize layer))
        \<longrightarrow>
        (\<exists>cv. cache (updateLayerCache msr layer) = Some \<lparr>cache_canvas = Some cv, isValid = True\<rparr>
           \<and> width cv = canvasDimension 300
                 (maxWidth (getTextBlockMetrics msr (layer_text layer) (font layer)
                              (fontSize layer)) + 2 * cachePadding layer)
           \<and> height cv = canvasDimension 150
                 (totalHeight (getTextBlockMetrics msr (layer_text layer) (font layer)
                                 (fontSize layer)) + 2 * cachePadding layer)
           \<and> translate cv
               = \<lparr>x = (maxWidth (getTextBlockMetrics msr (layer_text layer) (font layer)
                                    (fontSize layer)) + 2 * cachePadding layer) / 2,
                  y = (totalHeight (getTextBlockMetrics msr (layer_text layer) (font layer)
                                      (fontSize layer)) + 2 * cachePadding layer) / 2\<rparr>))
   \<and> (0 \<le> v \<and> v < 2147483648 \<longrightarrow>
        canvasDimension dflt v = real_of_int \<lfloor>v\<rfloor>
        \<and> (canvasDimension dflt v = v) = (v \<in> \<int>))
   \<and> workerPadding ltype properties
     = (if sh_enabled (shadow properties)
        then 2.5 * sh_blur (shadow properties)
             + max \<bar>sh_offsetX (shadow properties)\<bar> \<bar>sh_offsetY (shadow properties)\<bar>
        else 0)
       + (if ltype = ''image'' \<and> bd_enabled (border properties)
          then bd_width (border properties) * 2 else 0)
   \<and> (\<forall>cv. renderLayer imageData ltype properties contentWidth contentHeight = Inr cv \<longrightarrow>
          width cv = real_of_int (round (contentWidth + 2 * workerPadding ltype properties))
        \<and> height cv = real_of_int (round (contentHeight + 2 * workerPadding ltype properties))
        \<and> translate cv = \<lparr>x = width cv / 2, y = height cv / 2\<rparr>)"
  apply (intro conjI)
  subgoal by (simp add: cachePadding_def Let_def)
  subgoal by (simp add: updateLayerCache_def buildCache_def Let_def mult.commute)
  subgoal by (simp add: updateLayerCache_def buildCache_def Let_def mult.commute)
  subgoal
  proof
    assume h: "0 \<le> v \<and> v < 2147483648"
    then have f: "canvasDimension dflt v = real_of_int \<lfloor>v\<rfloor>"
      by (simp add: canvasDimension_floor)
    have "(real_of_int \<lfloor>v\<rfloor> = v) = (v \<in> \<int>)"
    proof
      assume "real_of_int \<lfloor>v\<rfloor> = v"
      then have "v = real_of_int \<lfloor>v\<rfloor>" by (rule sym)
      then show "v \<in> \<int>" by (metis Ints_of_int)
    next
      assume "v \<in> \<int>"
      then obtain n where "v = real_of_int n" by (rule Ints_cases)
      then show "real_of_int \<lfloor>v\<rfloor> = v" by simp
    qed
    with f show "canvasDimension dflt v = real_of_int \<lfloor>v\<rfloor>
        \<and> (canvasDimension dflt v = v) = (v \<in> \<int>)" by simp
  qed
  subgoal by (simp add: workerPadding_def Let_def)
  subgoal
  proof (intro allI impI)
    fix cv
    assume r: "renderLayer imageData ltype properties contentWidth contentHeight = Inr cv"
    have w: "width cv = real_of_int (round (contentWidth + 2 * workerPadding ltype properties))"
      using r by (auto simp: renderLayer_def Let_def mult.commute split: if_splits)
    have h: "height cv = real_of_int (round (contentHeight + 2 * workerPadding ltype properties))"
      using r by (auto simp: renderLayer_def Let_def mult.commute split: if_splits)
    have t: "translate cv = \<lparr>x = width cv / 2, y = height cv / 2\<rparr>"
      using r by (auto simp: renderLayer_def Let_def split: if_splits)
    from w h t show "width cv = real_of_int (round (contentWidth + 2 * workerPadding ltype properties))
        \<and> height cv = real_of_int (round (contentHeight + 2 * workerPadding ltype properties))
        \<and> translate cv = \<lparr>x = width cv / 2, y = height cv / 2\<rparr>" by blast
  qed
  done

theorem cache_padding_and_size_witness:
  "layer_type softShadowLayer = ''image'' \<and> mipmaps softShadowLayer = Some [exampleRaster]
   \<and> 0 < width exampleRaster \<and> 0 < height exampleRaster
   \<and> cachePadding softShadowLayer = 152 / 5
   \<and> (\<exists>cv. cache (updateLayerCache exampleMeasure softShadowLayer)
              = Some \<lparr>cache_canvas = Some cv, isValid = True\<rparr>
          \<and> width cv = 160 \<and> height cv = 160 \<and> translate cv = \<lparr>x = 402 / 5, y = 402 / 5\<rparr>)"
proof -
  have p: "cachePadding softShadowLayer = 152 / 5"
    by (simp add: cachePadding_def softShadowLayer_def exampleLayer_def Let_def)
  have h: "layer_type softShadowLayer = ''image'' \<and> mipmaps softShadowLayer = Some (exampleRaster # [])
        \<and> 0 < width exampleRaster \<and> 0 < height exampleRaster"
    by (simp add: softShadowLayer_def exampleLayer_def exampleRaster_def)
  have d: "canvasDimension 300 (804 / 5) = 160" "canvasDimension 150 (804 / 5) = 160"
    by (simp_all add: canvasDimension_def toUint32_def Let_def)
  have e: "width exampleRaster + 2 * cachePadding softShadowLayer = 804 / 5"
          "height exampleRaster + 2 * cachePadding softShadowLayer = 804 / 5"
    unfolding p by (simp_all add: exampleRaster_def)
  have "\<exists>cv. cache (updateLayerCache exampleMeasure softShadowLayer)
                = Some \<lparr>cache_canvas = Some cv, isValid = True\<rparr>
           \<and> width cv = canvasDimension 300 (width exampleRaster + 2 * cachePadding softShadowLayer)
           \<and> height cv = canvasDimension 150 (height exampleRaster + 2 * cachePadding softShadowLayer)
           \<and> translate cv = \<lparr>x = (width exampleRaster + 2 * cachePadding softShadowLayer) / 2,
                               y = (height exampleRaster + 2 * cachePadding softShadowLayer) / 2\<rparr>
           \<and> drawn cv = [DrawImage exampleRaster (- width exampleRaster / 2)
                           (- height exampleRaster / 2) (width exampleRaster) (height exampleRaster)]"
    using cache_padding_and_size [where layer = softShadowLayer and baseProxy = exampleRaster
            and rest = "[]" and msr = exampleMeasure, THEN conjunct2, THEN conjunct1] h
    by (rule mp)
  then obtain cv where c: "cache (updateLayerCache exampleMeasure softShadowLayer)
              = Some \<lparr>cache_canvas = Some cv, isValid = True\<rparr>"
      and w: "width cv = canvasDimension 300 (width exampleRaster + 2 * cachePadding softShadowLayer)"
      and g: "height cv = canvasDimension 150 (height exampleRaster + 2 * cachePadding softShadowLayer)"
      and t: "translate cv = \<lparr>x = (width exampleRaster + 2 * cachePadding softShadowLayer) / 2,
                             y = (height exampleRaster + 2 * cachePadding softShadowLayer) / 2\<rparr>"
    by blast
  have w': "width cv = 160" using w unfolding e d .
  have g': "height cv = 160" using g unfolding e d .
  have t': "translate cv = \<lparr>x = 402 / 5, y = 402 / 5\<rparr>" using t unfolding e by simp
  have "\<exists>cv. cache (updateLayerCache exampleMeasure softShadowLayer)
              = Some \<lparr>cache_canvas = Some cv, isValid = True\<rparr>
          \<and> width cv = 160 \<and> height cv = 160 \<and> translate cv = \<lparr>x = 402 / 5, y = 402 / 5\<rparr>"
    using c w' g' t' by blast
  with h p show ?thesis by simp
qed

lemma buildCache_degenerate:
  assumes "cw \<le> 0 \<or> ch \<le> 0"
  shows "\<exists>c. cache (buildCache msr layer c0 cw ch) = Some c \<and> isValid c
          \<and> (case cache_canvas c of None \<Rightarrow> True
               | Some cv \<Rightarrow> width cv = 0 \<and> height cv = 0 \<and> drawn cv = [])"
  using assms by (auto simp: buildCache_def split: option.splits)

lemma drawLayer_nothing:
  assumes "cache l = Some c" and "isValid c"
    and "case cache_canvas c of None \<Rightarrow> True
         | Some cv \<Rightarrow> width cv = 0 \<and> height cv = 0 \<and> drawn cv = []"
  shows "drawLayer msr now fin l = ([], l)"
  using assms by (auto simp: drawLayer_def split: option.splits)

text \<open>
  C7, as stated for every layer with zero-sized content: the cache is marked valid and no
  error is raised. It fails for an image layer whose base mipmap has width 0, which
  \<open>updateLayerCache\<close> leaves with an invalid cache, and in the worker, whose
  \<open>renderLayer\<close> throws for a cache size that is not positive.
\<close>

theorem zero_size_mipmap_counterexample:
  "cache (updateLayerCache exampleMeasure emptyRasterLayer)
     = Some \<lparr>cache_canvas = None, isValid = False\<rparr>
   \<and> renderLayer exampleRaster ''image'' exampleLayer 0 0 = Inl Invalid_cache_dimensions"
  by (simp add: updateLayerCache_def emptyRasterLayer_def exampleLayer_def renderLayer_def
        workerPadding_def Let_def)

lemma updateLayerCache_degenerate:
  assumes "(layer_type layer \<noteq> ''image''
            \<and> (maxWidth (getTextBlockMetrics msr (layer_text layer) (font layer) (fontSize layer)) \<le> 0
               \<or> totalHeight (getTextBlockMetrics msr (layer_text layer) (font layer) (fontSize layer)) \<le> 0))
         \<or> (layer_type layer = ''image'' \<and> mipmaps layer = Some (baseProxy # rest)
            \<and> width baseProxy \<noteq> 0 \<and> (width baseProxy \<le> 0 \<or> height baseProxy \<le> 0))"
  shows "\<exists>c. cache (updateLayerCache msr layer) = Some c \<and> isValid c
          \<and> (case cache_canvas c of None \<Rightarrow> True
               | Some cv \<Rightarrow> width cv = 0 \<and> height cv = 0 \<and> drawn cv = [])
          \<and> drawLayer msr now isFinalRender (updateLayerCache msr layer)
              = ([], updateLayerCache msr layer)"
proof -
  have "\<exists>c. cache (updateLayerCache msr layer) = Some c \<and> isValid c
          \<and> (case cache_canvas c of None \<Rightarrow> True
               | Some cv \<Rightarrow> width cv = 0 \<and> height cv = 0 \<and> drawn cv = [])"
    using assms
  proof
    assume t: "layer_type layer \<noteq> ''image''
            \<and> (maxWidth (getTextBlockMetrics msr (layer_text layer) (font layer) (fontSize layer)) \<le> 0
               \<or> totalHeight (getTextBlockMetrics msr (layer_text layer) (font layer) (fontSize layer)) \<le> 0)"
    then show ?thesis
      by (simp add: updateLayerCache_def Let_def buildCache_degenerate)
  next
    assume i: "layer_type layer = ''image'' \<and> mipmaps layer = Some (baseProxy # rest)
            \<and> width baseProxy \<noteq> 0 \<and> (width baseProxy \<le> 0 \<or> height baseProxy \<le> 0)"
    then show ?thesis
      by (simp add: updateLayerCache_def Let_def buildCache_degenerate)
  qed
  then obtain c where c: "cache (updateLayerCache msr layer) = Some c" "isValid c"
     "case cache_canvas c of None \<Rightarrow> True
               | Some cv \<Rightarrow> width cv = 0 \<and> height cv = 0 \<and> drawn cv = []"
    by blast
  from drawLayer_nothing [OF c] c show ?thesis by blast
qed

lemma updateLayerCache_unloaded:
  assumes "layer_type layer = ''image''"
    and "mipmaps layer = None \<or> mipmaps layer = Some []
         \<or> (\<exists>b r. mipmaps layer = Some (b # r) \<and> width b = 0)"
  shows "\<exists>c. cache (updateLayerCache msr layer) = Some c \<and> \<not> isValid c"
  using assms by (auto simp: updateLayerCache_def)

lemma blank_metrics:
  assumes "list_all isSpace txt"
  shows "getTextBlockMetrics msr txt fnt fntSize
           = \<lparr>lines = [], lineHeight = 0, maxWidth = 0, totalHeight = 0, ascent = 0\<rparr>"
  using assms by (simp add: getTextBlockMetrics_def)

text \<open>
  C7, amended: for every text layer whose measured width or height is zero or negative,
  which is the case of every text that is empty or has white space only, and for every
  image layer whose base mipmap has a width other than 0 and a width or height that is
  zero or negative, \<open>updateLayerCache\<close> returns with the cache marked valid and with no
  canvas or a canvas of size 0 by 0 with nothing drawn on it, for which \<open>drawLayers\<close>
  draws nothing. An image layer without mipmaps, or whose base mipmap has width 0, is
  left with an invalid cache, and the worker's \<open>renderLayer\<close> throws when the rounded
  width or height of the cache is not positive.
\<close>

theorem degenerate_content_cache:
  "((layer_type layer \<noteq> ''image''
       \<and> (maxWidth (getTextBlockMetrics msr (layer_text layer) (font layer) (fontSize layer)) \<le> 0
          \<or> totalHeight (getTextBlockMetrics msr (layer_text layer) (font layer) (fontSize layer)) \<le> 0))
     \<or> (layer_type layer = ''image'' \<and> mipmaps layer = Some (baseProxy # rest)
          \<and> width baseProxy \<noteq> 0 \<and> (width baseProxy \<le> 0 \<or> height baseProxy \<le> 0))
     \<longrightarrow>
       (\<exists>c. cache (updateLayerCache msr layer) = Some c \<and> isValid c
          \<and> (case cache_canvas c of None \<Rightarrow> True
               | Some cv \<Rightarrow> width cv = 0 \<and> height cv = 0 \<and> drawn cv = [])
          \<and> drawLayer msr now isFinalRender (updateLayerCache msr layer)
              = ([], updateLayerCache msr layer)))
   \<and> (layer_type layer \<noteq> ''image'' \<and> list_all isSpace (layer_text layer) \<longrightarrow>
        maxWidth (getTextBlockMetrics msr (layer_text layer) (font layer) (fontSize layer)) = 0
        \<and> totalHeight (getTextBlockMetrics msr (layer_text layer) (font layer) (fontSize layer)) = 0
        \<and> (\<exists>c. cache (updateLayerCache msr layer) = Some c \<and> isValid c
              \<and> (case cache_canvas c of None \<Rightarrow> True
                   | Some cv \<Rightarrow> width cv = 0 \<and> height cv = 0 \<and> drawn cv = [])
              \<and> drawLayer msr now isFinalRender (updateLayerCache msr layer)
                  = ([], updateLayerCache msr layer)))
   \<and> (layer_type layer = ''image''
        \<and> (mipmaps layer = None \<or> mipmaps layer = Some []
            \<or> (\<exists>b r. mipmaps layer = Some (b # r) \<and> width b = 0))
     \<longrightarrow> (\<exists>c. cache (updateLayerCache msr layer) = Some c \<and> \<not> isValid c))
   \<and> (round (contentWidth + workerPadding ltype properties * 2) \<le> 0
        \<or> round (contentHeight + workerPadding ltype properties * 2) \<le> 0
     \<longrightarrow> renderLayer imageData ltype properties contentWidth contentHeight
           = Inl Invalid_cache_dimensions)"
  apply (intro conjI)
  subgoal
  proof
    assume "(layer_type layer \<noteq> ''image''
       \<and> (maxWidth (getTextBlockMetrics msr (layer_text layer) (font layer) (fontSize layer)) \<le> 0
          \<or> totalHeight (getTextBlockMetrics msr (layer_text layer) (font layer) (fontSize layer)) \<le> 0))
     \<or> (layer_type layer = ''image'' \<and> mipmaps layer = Some (baseProxy # rest)
          \<and> width baseProxy \<noteq> 0 \<and> (width baseProxy \<le> 0 \<or> height baseProxy \<le> 0))"
    then show "\<exists>c. cache (updateLayerCache msr layer) = Some c \<and> isValid c
          \<and> (case cache_canvas c of None \<Rightarrow> True
               | Some cv \<Rightarrow> width cv = 0 \<and> height cv = 0 \<and> drawn cv = [])
          \<and> drawLayer msr now isFinalRender (updateLayerCache msr layer)
              = ([], updateLayerCache msr layer)"
      by (rule updateLayerCache_degenerate)
  qed
  subgoal
  proof
    assume a: "layer_type layer \<noteq> ''image'' \<and> list_all isSpace (layer_text layer)"
    then have m: "getTextBlockMetrics msr (layer_text layer) (font layer) (fontSize layer)
           = \<lparr>lines = [], lineHeight = 0, maxWidth = 0, totalHeight = 0, ascent = 0\<rparr>"
      by (simp add: blank_metrics)
    have d: "(layer_type layer \<noteq> ''image''
            \<and> (maxWidth (getTextBlockMetrics msr (layer_text layer) (font layer) (fontSize layer)) \<le> 0
               \<or> totalHeight (getTextBlockMetrics msr (layer_text layer) (font layer) (fontSize layer)) \<le> 0))
         \<or> (layer_type layer = ''image'' \<and> mipmaps layer = Some (baseProxy # rest)
            \<and> width baseProxy \<noteq> 0 \<and> (width baseProxy \<le> 0 \<or> height baseProxy \<le> 0))"
      using a by (simp add: m)
    have e: "\<exists>c. cache (updateLayerCache msr layer) = Some c \<and> isValid c
          \<and> (case cache_canvas c of None \<Rightarrow> True
               | Some cv \<Rightarrow> width cv = 0 \<and> height cv = 0 \<and> drawn cv = [])
          \<and> drawLayer msr now isFinalRender (updateLayerCache msr layer)
              = ([], updateLayerCache msr layer)"
      using d by (rule updateLayerCache_degenerate)
    show "maxWidth (getTextBlockMetrics msr (layer_text layer) (font layer) (fontSize layer)) = 0
        \<and> totalHeight (getTextBlockMetrics msr (layer_text layer) (font layer) (fontSize layer)) = 0
        \<and> (\<exists>c. cache (updateLayerCache msr layer) = Some c \<and> isValid c
              \<and> (case cache_canvas c of None \<Rightarrow> True
                   | Some cv \<Rightarrow> width cv = 0 \<and> height cv = 0 \<and> drawn cv = [])
              \<and> drawLayer msr now isFinalRender (updateLayerCache msr layer)
                  = ([], updateLayerCache msr layer))"
      using e by (simp add: m)
  qed
  subgoal using updateLayerCache_unloaded [of layer msr] by blast
  subgoal by (auto simp: renderLayer_def Let_def)
  done

theorem degenerate_content_cache_witness:
  "layer_type blankTextLayer \<noteq> ''image'' \<and> list_all isSpace (layer_text blankTextLayer)
   \<and> layer_text blankTextLayer \<noteq> []
   \<and> cache (updateLayerCache exampleMeasure blankTextLayer)
       = Some \<lparr>cache_canvas = None, isValid = True\<rparr>
   \<and> drawLayer exampleMeasure 0 False (updateLayerCache exampleMeasure blankTextLayer)
       = ([], updateLayerCache exampleMeasure blankTextLayer)"
proof -
  have h: "layer_type blankTextLayer \<noteq> ''image'' \<and> list_all isSpace (layer_text blankTextLayer)"
    by (simp add: blankTextLayer_def exampleLayer_def isSpace_def)
  have n: "layer_text blankTextLayer \<noteq> []"
    by (simp add: blankTextLayer_def exampleLayer_def)
  have m: "getTextBlockMetrics exampleMeasure (layer_text blankTextLayer) (font blankTextLayer)
             (fontSize blankTextLayer)
           = \<lparr>lines = [], lineHeight = 0, maxWidth = 0, totalHeight = 0, ascent = 0\<rparr>"
    using h by (simp add: getTextBlockMetrics_def)
  have v: "cache (updateLayerCache exampleMeasure blankTextLayer)
             = Some \<lparr>cache_canvas = None, isValid = True\<rparr>"
    by (simp add: updateLayerCache_def m buildCache_def Let_def)
       (simp add: blankTextLayer_def exampleLayer_def)
  have "maxWidth (getTextBlockMetrics exampleMeasure (layer_text blankTextLayer)
                    (font blankTextLayer) (fontSize blankTextLayer)) = 0
        \<and> totalHeight (getTextBlockMetrics exampleMeasure (layer_text blankTextLayer)
                    (font blankTextLayer) (fontSize blankTextLayer)) = 0
        \<and> (\<exists>c. cache (updateLayerCache exampleMeasure blankTextLayer) = Some c \<and> isValid c
              \<and> (case cache_canvas c of None \<Rightarrow> True
                   | Some cv \<Rightarrow> width cv = 0 \<and> height cv = 0 \<and> drawn cv = [])
              \<and> drawLayer exampleMeasure 0 False (updateLayerCache exampleMeasure blankTextLayer)
                  = ([], updateLayerCache exampleMeasure blankTextLayer))"
    using degenerate_content_cache [where layer = blankTextLayer and msr = exampleMeasure
            and now = 0 and isFinalRender = False, THEN conjunct2, THEN conjunct1] h
    by (rule mp)
  then have "drawLayer exampleMeasure 0 False (updateLayerCache exampleMeasure blankTextLayer)
                  = ([], updateLayerCache exampleMeasure blankTextLayer)"
    by blast
  with h n v show ?thesis by simp
qed

section \<open>Properties of the hit test\<close>

text \<open>
  The loop selects the first layer that contains the point and that
  \<open>isPixelOpaqueAtPoint\<close> accepts, and the first layer that contains the point when
  there is none.
\<close>

lemma scanLayers_find:
  "fst (scanLayers msr p ls t)
     = find (\<lambda>l. isPointInMovieLayer msr p l \<and> isPixelOpaqueAtPoint l p) ls
   \<and> (find (\<lambda>l. isPointInMovieLayer msr p l \<and> isPixelOpaqueAtPoint l p) ls = None \<longrightarrow>
        snd (scanLayers msr p ls t)
          = (case t of Some t' \<Rightarrow> Some t' | None \<Rightarrow> find (isPointInMovieLayer msr p) ls))"
  by (induction ls arbitrary: t) (auto simp: Let_def split: option.splits)

lemma layerToSelect_find:
  "layerToSelect msr p ls
     = (case find (\<lambda>l. isPointInMovieLayer msr p l \<and> isPixelOpaqueAtPoint l p) ls of
          Some l \<Rightarrow> Some l
        | None \<Rightarrow> find (isPointInMovieLayer msr p) ls)"
  using scanLayers_find [of msr p ls None]
  by (cases "scanLayers msr p ls None") (auto simp: layerToSelect_def split: option.splits)

text \<open>
  C3 at a mirrored layer: \<open>flippedLayer\<close> shows its opaque half on the right, and
  \<open>opaqueLayer\<close> lies below it. At the point \<open>(75, 50)\<close> the eraser's mapping, which
  mirrors the pointer for a flipped layer, reaches the opaque raster column 25; the hit
  test does not mirror, samples the transparent column 75, and selects the layer below.
\<close>

theorem flipped_layer_hit_test:
  "isPointInMovieLayer exampleMeasure \<lparr>x = 75, y = 50\<rparr> flippedLayer
   \<and> opacityProxyPoint flippedLayer exampleRaster \<lparr>x = 75, y = 50\<rparr> = (75, 50)
   \<and> pixelAlpha exampleRaster 75 50 = Some 0
   \<and> brushProxyPoint flippedLayer exampleRaster \<lparr>x = 75, y = 50\<rparr> = (25, 50)
   \<and> pixelAlpha exampleRaster 25 50 = Some 255
   \<and> \<not> isPixelOpaqueAtPoint flippedLayer \<lparr>x = 75, y = 50\<rparr>
   \<and> layerToSelect exampleMeasure \<lparr>x = 75, y = 50\<rparr> [flippedLayer, opaqueLayer] = Some opaqueLayer"
proof -
  have a: "isPointInMovieLayer exampleMeasure \<lparr>x = 75, y = 50\<rparr> flippedLayer"
    by (simp add: isPointInMovieLayer_def getLayerMetrics_def frameOffset_def flippedLayer_def
          exampleLayer_def exampleRaster_def Let_def)
  have b: "opacityProxyPoint flippedLayer exampleRaster \<lparr>x = 75, y = 50\<rparr> = (75, 50)"
    by (simp add: opacityProxyPoint_def flippedLayer_def exampleLayer_def exampleRaster_def Let_def)
  have c: "brushProxyPoint flippedLayer exampleRaster \<lparr>x = 75, y = 50\<rparr> = (25, 50)"
    by (simp add: brushProxyPoint_def flippedLayer_def exampleLayer_def exampleRaster_def Let_def)
  have m: "mipmaps flippedLayer = Some [exampleRaster]" "layer_type flippedLayer = ''image''"
    by (simp_all add: flippedLayer_def exampleLayer_def)
  have d: "\<not> isPixelOpaqueAtPoint flippedLayer \<lparr>x = 75, y = 50\<rparr>"
    by (simp add: isPixelOpaqueAtPoint_def m b) (simp add: exampleRaster_def)
  have e: "isPointInMovieLayer exampleMeasure \<lparr>x = 75, y = 50\<rparr> opaqueLayer"
    by (simp add: isPointInMovieLayer_def getLayerMetrics_def frameOffset_def opaqueLayer_def
          exampleLayer_def Let_def)
  have f: "isPixelOpaqueAtPoint opaqueLayer \<lparr>x = 75, y = 50\<rparr>"
    by (simp add: isPixelOpaqueAtPoint_def opacityProxyPoint_def opaqueLayer_def
          exampleLayer_def Let_def)
  have g: "layerToSelect exampleMeasure \<lparr>x = 75, y = 50\<rparr> [flippedLayer, opaqueLayer] = Some opaqueLayer"
    by (simp add: layerToSelect_def a d e f)
  show ?thesis using a b c d g by (simp add: exampleRaster_def)
qed

section \<open>Properties of the background change\<close>

text \<open>
  When a background replaces an earlier one, \<open>setBackground\<close> runs \<open>adaptLayer\<close> on
  every layer with the size of the new canvas, whose width is at most 1920: a background
  of 2000 by 1600 gives a canvas of 1920 by 1536.
\<close>

lemma newCanvasSize_width_le: "width (newCanvasSize w h) \<le> 1920"
proof (cases "w > 1920")
  case True
  then show ?thesis by (simp add: newCanvasSize_def MAX_CANVAS_WIDTH_def Let_def)
next
  case False
  then have "round w \<le> (1920::int)"
    using round_mono [of w "1920::real"] by simp
  with False show ?thesis
    by (simp add: newCanvasSize_def MAX_CANVAS_WIDTH_def Let_def)
qed

lemma setBackground_adapts:
  assumes "backgroundElement (canvasState st) \<noteq> None"
    and "layers (canvasState st) \<noteq> []"
  shows "layers (canvasState (setBackground msr e hash isRestoring st))
           = map (adaptLayer msr (width (movieCanvas (setBackground msr e hash isRestoring st)))
                                 (height (movieCanvas (setBackground msr e hash isRestoring st))))
                 (layers (canvasState st))"
    and "width (movieCanvas (setBackground msr e hash isRestoring st)) \<le> 1920"
  using assms newCanvasSize_width_le
  by (auto simp: setBackground_def dispatch_def Let_def)

lemma newCanvasSize_2000_1600: "newCanvasSize 2000 1600 = \<lparr>width = 1920, height = 1536\<rparr>"
  by (simp add: newCanvasSize_def MAX_CANVAS_WIDTH_def Let_def)









lemma setBackground_2000_1600:
  "movieCanvas (setBackground exampleMeasure \<lparr>naturalWidth = 2000, naturalHeight = 1600\<rparr>
                  (Some ''h1'') False anchoredApp) = \<lparr>width = 1920, height = 1536\<rparr>"
  "layers (canvasState (setBackground exampleMeasure \<lparr>naturalWidth = 2000, naturalHeight = 1600\<rparr>
                  (Some ''h1'') False anchoredApp))
     = [adaptLayer exampleMeasure 1920 1536 anchoredLayer]"
proof -
  show c: "movieCanvas (setBackground exampleMeasure \<lparr>naturalWidth = 2000, naturalHeight = 1600\<rparr>
                  (Some ''h1'') False anchoredApp) = \<lparr>width = 1920, height = 1536\<rparr>"
    by (simp add: setBackground_def dispatch_def Let_def anchoredApp_def exampleApp_def
          exampleCanvasState_def newCanvasSize_2000_1600)
  have b: "backgroundElement (canvasState anchoredApp) \<noteq> None"
    by (simp add: anchoredApp_def exampleApp_def exampleCanvasState_def)
  have l: "layers (canvasState anchoredApp) = [anchoredLayer]"
    by (simp add: anchoredApp_def exampleApp_def exampleCanvasState_def)
  have ne: "layers (canvasState anchoredApp) \<noteq> []" by (simp add: l)
  show "layers (canvasState (setBackground exampleMeasure \<lparr>naturalWidth = 2000, naturalHeight = 1600\<rparr>
                  (Some ''h1'') False anchoredApp))
     = [adaptLayer exampleMeasure 1920 1536 anchoredLayer]"
    unfolding setBackground_adapts(1) [OF b ne] c by (simp add: l)
qed





section \<open>Properties of the resize gesture\<close>

lemma resizeScaleFactor_pos: "0 < resizeScaleFactor i p"
  by (simp add: resizeScaleFactor_def Let_def less_max_iff_disj)

lemma handle_scaled:
  assumes "layer_type l0 = ''image''" "mipmaps l0 = Some (b # rest)" "contentFrame l0 = Some fr"
    and "layer_type l' = ''image''" "mipmaps l' = Some (b # rest)" "contentFrame l' = Some fr"
    and "rot l' = rot l0"
    and "layer_size l' = layer_size l0 * f" "f \<noteq> 0"
    and "dWidth (getLayerMetrics msr l0) \<noteq> 0" "dHeight (getLayerMetrics msr l0) \<noteq> 0"
    and "k \<in> {''tl'', ''tr'', ''bl'', ''br''}"
    and "getHandleWorldPosition msr l0 k = \<lparr>x = ax, y = ay\<rparr>"
    and "x l' = ax + (x l0 - ax) * f" "y l' = ay + (y l0 - ay) * f"
  shows "getHandleWorldPosition msr l' k = \<lparr>x = ax, y = ay\<rparr>"
proof -
  define cw where "cw = cf_width fr"
  define chh where "chh = cf_height fr"
  define s0 where "s0 = layer_size l0"
  define bw where "bw = width b"
  have m0: "getLayerMetrics msr l0 = \<lparr>dWidth = cw * (s0 / bw), dHeight = chh * (s0 / bw)\<rparr>"
    using assms(1-3) by (simp add: getLayerMetrics_def Let_def cw_def chh_def s0_def bw_def)
  have m1: "getLayerMetrics msr l' = \<lparr>dWidth = cw * (s0 * f / bw), dHeight = chh * (s0 * f / bw)\<rparr>"
    using assms(4-6,8) by (simp add: getLayerMetrics_def Let_def cw_def chh_def s0_def bw_def)
  have nz0: "cw * (s0 / bw) \<noteq> 0" "chh * (s0 / bw) \<noteq> 0"
    using assms(10,11) by (simp_all add: m0)
  have nz1: "dWidth (getLayerMetrics msr l') \<noteq> 0" "dHeight (getLayerMetrics msr l') \<noteq> 0"
    using nz0 assms(9) by (auto simp: m1)
  define ox where "ox = fst (frameOffset l0)"
  define oy where "oy = snd (frameOffset l0)"
  have o0: "frameOffset l0 = (ox, oy)" by (simp add: ox_def oy_def)
  have o1: "frameOffset l' = (ox * f, oy * f)"
    using assms(1-6,8) by (simp add: frameOffset_def Let_def ox_def oy_def algebra_simps)
  define sx :: real where "sx = (if k = ''tl'' \<or> k = ''bl'' then - 1 else 1)"
  define sy :: real where "sy = (if k = ''tl'' \<or> k = ''tr'' then - 1 else 1)"
  have hl: "\<And>m. handleLocal m k = Some (sx * dWidth m / 2, sy * dHeight m / 2)"
    using assms(12) by (auto simp: handleLocal_def sx_def sy_def)
  define hx where "hx = sx * (cw * (s0 / bw)) / 2"
  define hy where "hy = sy * (chh * (s0 / bw)) / 2"
  have hl0: "handleLocal (getLayerMetrics msr l0) k = Some (hx, hy)"
    by (simp add: hl m0 hx_def hy_def)
  have hl1: "handleLocal (getLayerMetrics msr l') k = Some (hx * f, hy * f)"
    by (simp add: hl m1 hx_def hy_def)
  have "getHandleWorldPosition msr l0 k
      = \<lparr>x = x l0 + ((ox + hx) * cos (rot l0 * pi / 180) - (oy + hy) * sin (rot l0 * pi / 180)),
         y = y l0 + ((ox + hx) * sin (rot l0 * pi / 180) + (oy + hy) * cos (rot l0 * pi / 180))\<rparr>"
    using assms(10,11) by (simp add: getHandleWorldPosition_def Let_def o0 hl0)
  with assms(13) have a0:
    "ax = x l0 + ((ox + hx) * cos (rot l0 * pi / 180) - (oy + hy) * sin (rot l0 * pi / 180))"
    "ay = y l0 + ((ox + hx) * sin (rot l0 * pi / 180) + (oy + hy) * cos (rot l0 * pi / 180))"
    by simp_all
  have "getHandleWorldPosition msr l' k
      = \<lparr>x = x l' + ((ox * f + hx * f) * cos (rot l0 * pi / 180) - (oy * f + hy * f) * sin (rot l0 * pi / 180)),
         y = y l' + ((ox * f + hx * f) * sin (rot l0 * pi / 180) + (oy * f + hy * f) * cos (rot l0 * pi / 180))\<rparr>"
    using nz1 assms(7) by (simp add: getHandleWorldPosition_def Let_def o1 hl1)
  also have "\<dots> = \<lparr>x = ax, y = ay\<rparr>"
    unfolding assms(14,15) by (simp add: a0 algebra_simps)
  finally show ?thesis .
qed

lemma find_layer_id: "find (\<lambda>l. layer_id l = a) ls = Some l \<Longrightarrow> layer_id l = a"
  by (auto simp: find_Some_iff)

lemma find_map_if:
  assumes "find (\<lambda>l. layer_id l = a) ls = Some l" and "layer_id (g l) = a"
  shows "find (\<lambda>l. layer_id l = a) (map (\<lambda>l. if layer_id l \<noteq> a then l else g l) ls)
           = Some (g l)"
  using assms by (induction ls) (auto split: if_splits)

lemma degenerate_handles:
  assumes "dWidth (getLayerMetrics msr l0) = 0 \<or> dHeight (getLayerMetrics msr l0) = 0"
  shows "getHandleWorldPosition msr l0 k = \<lparr>x = x l0, y = y l0\<rparr>"
  using assms by (auto simp: getHandleWorldPosition_def Let_def)

lemma oppositeHandles_corner:
  "h \<in> {''tl'', ''tr'', ''bl'', ''br''} \<Longrightarrow> oppositeHandles h \<in> {''tl'', ''tr'', ''bl'', ''br''}"
  by (auto simp: oppositeHandles_def)

lemma resizeActions_image:
  assumes dist: "hypot (x (startHandlePoint i) - x (anchorPoint i))
                     (y (startHandlePoint i) - y (anchorPoint i)) > 1"
    and lty: "layer_type l \<noteq> ''text''"
  shows "resizeActions i l p
      = [LAYER_TRANSFORMED (layer_id l)
           [Set_x (x (anchorPoint i) + (x (initialState i) - x (anchorPoint i)) * resizeScaleFactor i p),
            Set_y (y (anchorPoint i) + (y (initialState i) - y (anchorPoint i)) * resizeScaleFactor i p)],
         LAYER_PROPERTY_CHANGED (layer_id l)
           (Set_size (max 20 (layer_size (initialState i) * resizeScaleFactor i p)))]"
  using dist lty unfolding resizeActions_def Let_def by simp

lemma resizeMove_active:
  assumes act: "getActiveLayer cs a = Some l"
    and dist: "hypot (x (startHandlePoint i) - x (anchorPoint i))
                     (y (startHandlePoint i) - y (anchorPoint i)) > 1"
    and lty: "layer_type l \<noteq> ''text''"
  shows "getActiveLayer (resizeMove i a p cs) a
     = Some (l\<lparr>x := x (anchorPoint i) + (x (initialState i) - x (anchorPoint i)) * resizeScaleFactor i p,
               y := y (anchorPoint i) + (y (initialState i) - y (anchorPoint i)) * resizeScaleFactor i p,
               layer_size := max 20 (layer_size (initialState i) * resizeScaleFactor i p),
               cache := Some (newCache l)\<rparr>)"
proof -
  define nx where "nx = x (anchorPoint i) + (x (initialState i) - x (anchorPoint i)) * resizeScaleFactor i p"
  define ny where "ny = y (anchorPoint i) + (y (initialState i) - y (anchorPoint i)) * resizeScaleFactor i p"
  define ns where "ns = max 20 (layer_size (initialState i) * resizeScaleFactor i p)"
  have lid: "layer_id l = a"
    by (rule find_layer_id [OF act [unfolded getActiveLayer_def]])
  have acts: "resizeActions i l p
      = [LAYER_TRANSFORMED a [Set_x nx, Set_y ny], LAYER_PROPERTY_CHANGED a (Set_size ns)]"
    unfolding nx_def ny_def ns_def using resizeActions_image [OF dist lty, of p]
    by (simp only: lid)
  define l1 where "l1 = l\<lparr>x := nx, y := ny\<rparr>"
  define l2 where "l2 = l1\<lparr>layer_size := ns, cache := Some (newCache l1)\<rparr>"
  have f1: "find (\<lambda>l. layer_id l = a)
              (map (\<lambda>l. if layer_id l \<noteq> a then l else l\<lparr>x := nx, y := ny\<rparr>) (layers cs))
            = Some l1"
    unfolding l1_def by (rule find_map_if [OF act [unfolded getActiveLayer_def]]) (simp add: lid)
  have f2: "find (\<lambda>l. layer_id l = a)
              (map (\<lambda>l. if layer_id l \<noteq> a then l
                         else l\<lparr>layer_size := ns, cache := Some (newCache l)\<rparr>)
                 (map (\<lambda>l. if layer_id l \<noteq> a then l else l\<lparr>x := nx, y := ny\<rparr>)
                    (layers cs)))
            = Some l2"
    unfolding l2_def by (rule find_map_if [OF f1]) (simp add: l1_def lid)
  have rm: "resizeMove i a p cs = dispatchAll (resizeActions i l p) cs"
    by (simp add: resizeMove_def act)
  have res: "getActiveLayer (resizeMove i a p cs) a = Some l2"
    using f2 by (simp add: rm acts dispatchAll_def getActiveLayer_def cong: if_cong)
  have "l2 = l\<lparr>x := nx, y := ny, layer_size := ns, cache := Some (newCache l)\<rparr>"
    by (simp add: l2_def l1_def newCache_def)
  with res show ?thesis by (simp add: nx_def ny_def ns_def)
qed

lemma exampleLayer_fields:
  "layer_id exampleLayer = ''a''" "layer_type exampleLayer = ''image''"
  "x exampleLayer = 50" "y exampleLayer = 50" "layer_size exampleLayer = 100"
  "rot exampleLayer = 0" "mipmaps exampleLayer = Some [exampleRaster]"
  "contentFrame exampleLayer
     = Some \<lparr>cf_x = 0, cf_y = 0, cf_width = 100, cf_height = 100, isEmpty = False\<rparr>"
  "newCache exampleLayer = \<lparr>cache_canvas = None, isValid = False\<rparr>"
  by (simp_all add: exampleLayer_def newCache_def)

lemma example_resizeStart:
  "resizeStart exampleMeasure exampleLayer ''br''
     = \<lparr>handle = ''br'', anchorPoint = \<lparr>x = 0, y = 0\<rparr>,
        startHandlePoint = \<lparr>x = 100, y = 100\<rparr>, initialState = exampleLayer\<rparr>"
  by (simp add: resizeStart_def getHandleWorldPosition_def getLayerMetrics_def frameOffset_def
        handleLocal_def oppositeHandles_def exampleLayer_fields exampleRaster_def Let_def)

lemma example_initialDist:
  "hypot (x (startHandlePoint (resizeStart exampleMeasure exampleLayer ''br''))
            - x (anchorPoint (resizeStart exampleMeasure exampleLayer ''br'')))
         (y (startHandlePoint (resizeStart exampleMeasure exampleLayer ''br''))
            - y (anchorPoint (resizeStart exampleMeasure exampleLayer ''br''))) > 1"
  by (simp add: example_resizeStart hypot_def)

lemma example_scaleFactor:
  "resizeScaleFactor (resizeStart exampleMeasure exampleLayer ''br'') \<lparr>x = px, y = py\<rparr>
     = max (1/100) ((px + py) / 200)"
proof -
  have e: "(px * 100 + py * 100) / 20000 = (px + py) / 200"
    by (simp add: field_simps)
  show ?thesis
    by (simp add: resizeScaleFactor_def example_resizeStart hypot_def Let_def e)
qed

lemma example_active: "getActiveLayer exampleCanvasState ''a'' = Some exampleLayer"
  by (simp add: getActiveLayer_def exampleCanvasState_def exampleLayer_fields)

lemma example_resizeMove:
  "getActiveLayer (resizeMove (resizeStart exampleMeasure exampleLayer ''br'') ''a''
            \<lparr>x = px, y = py\<rparr> exampleCanvasState) ''a''
     = Some (exampleLayer\<lparr>x := 50 * max (1/100) ((px + py) / 200),
                          y := 50 * max (1/100) ((px + py) / 200),
                          layer_size := max 20 (100 * max (1/100) ((px + py) / 200)),
                          cache := Some \<lparr>cache_canvas = None, isValid = False\<rparr>\<rparr>)"
proof -
  have t: "layer_type exampleLayer \<noteq> ''text''" by (simp add: exampleLayer_fields)
  show ?thesis
    unfolding resizeMove_active [OF example_active example_initialDist t] example_scaleFactor
    by (simp add: example_resizeStart exampleLayer_fields)
qed

text \<open>
  Where the size is not clamped, that is while the initial size times the scale factor is
  at least 20, the resize of an image layer from a corner handle scales the centre about
  the anchor point and the size by the same factor, and the corner opposite the dragged
  handle stays at the anchor point.
\<close>

lemma resize_unclamped_keeps_corner:
  assumes img: "layer_type l0 = ''image''"
    and mm: "mipmaps l0 = Some (baseProxy # rest)"
    and bw: "width baseProxy \<noteq> 0"
    and cf: "contentFrame l0 = Some frame"
    and h: "h \<in> {''tl'', ''tr'', ''bl'', ''br''}"
    and i: "i = resizeStart msr l0 h"
    and act: "getActiveLayer cs activeLayerId = Some l"
    and same: "layer_type l = layer_type l0 \<and> rot l = rot l0 \<and> mipmaps l = mipmaps l0
               \<and> contentFrame l = contentFrame l0"
    and dist: "hypot (x (startHandlePoint i) - x (anchorPoint i))
                     (y (startHandlePoint i) - y (anchorPoint i)) > 1"
    and unclamped: "20 \<le> layer_size l0 * resizeScaleFactor i p"
  shows "\<exists>l'. getActiveLayer (resizeMove i activeLayerId p cs) activeLayerId = Some l'
           \<and> x l' = x (anchorPoint i) + (x l0 - x (anchorPoint i)) * resizeScaleFactor i p
           \<and> y l' = y (anchorPoint i) + (y l0 - y (anchorPoint i)) * resizeScaleFactor i p
           \<and> layer_size l' = layer_size l0 * resizeScaleFactor i p
           \<and> getHandleWorldPosition msr l' (oppositeHandles h) = anchorPoint i"
proof -
  define f where "f = resizeScaleFactor i p"
  define ax where "ax = x (anchorPoint i)"
  define ay where "ay = y (anchorPoint i)"
  have fpos: "f \<noteq> 0" using resizeScaleFactor_pos [of i p] by (simp add: f_def)
  have init: "initialState i = l0" by (simp add: i resizeStart_def)
  have anchor: "getHandleWorldPosition msr l0 (oppositeHandles h) = \<lparr>x = ax, y = ay\<rparr>"
    by (simp add: ax_def ay_def i resizeStart_def)
  have lty: "layer_type l \<noteq> ''text''" using same img by simp
  have m: "max 20 (layer_size l0 * f) = layer_size l0 * f"
    using unclamped by (simp add: f_def)
  define l2 where "l2 = l\<lparr>x := ax + (x l0 - ax) * f, y := ay + (y l0 - ay) * f,
                          layer_size := layer_size l0 * f, cache := Some (newCache l)\<rparr>"
  have res: "getActiveLayer (resizeMove i activeLayerId p cs) activeLayerId = Some l2"
    unfolding l2_def ax_def ay_def f_def
    using resizeMove_active [OF act dist lty, of p] m by (simp only: init f_def)
  have nz: "dWidth (getLayerMetrics msr l0) \<noteq> 0 \<and> dHeight (getLayerMetrics msr l0) \<noteq> 0"
  proof (rule ccontr)
    assume "\<not> ?thesis"
    then have d: "dWidth (getLayerMetrics msr l0) = 0 \<or> dHeight (getLayerMetrics msr l0) = 0"
      by blast
    have "startHandlePoint i = anchorPoint i"
      by (simp add: i resizeStart_def degenerate_handles [OF d])
    with dist show False by (simp add: hypot_def)
  qed
  have pos: "getHandleWorldPosition msr l2 (oppositeHandles h) = \<lparr>x = ax, y = ay\<rparr>"
  proof (rule handle_scaled [where ?l0.0 = l0 and f = f and b = baseProxy and rest = rest and fr = frame])
    show "layer_type l0 = ''image''" by (rule img)
    show "mipmaps l0 = Some (baseProxy # rest)" by (rule mm)
    show "contentFrame l0 = Some frame" by (rule cf)
    show "layer_type l2 = ''image''" using same img by (simp add: l2_def)
    show "mipmaps l2 = Some (baseProxy # rest)" using same mm by (simp add: l2_def)
    show "contentFrame l2 = Some frame" using same cf by (simp add: l2_def)
    show "rot l2 = rot l0" using same by (simp add: l2_def)
    show "layer_size l2 = layer_size l0 * f" by (simp add: l2_def)
    show "f \<noteq> 0" by (rule fpos)
    show "dWidth (getLayerMetrics msr l0) \<noteq> 0" using nz by simp
    show "dHeight (getLayerMetrics msr l0) \<noteq> 0" using nz by simp
    show "oppositeHandles h \<in> {''tl'', ''tr'', ''bl'', ''br''}"
      using h by (rule oppositeHandles_corner)
    show "getHandleWorldPosition msr l0 (oppositeHandles h) = \<lparr>x = ax, y = ay\<rparr>" by (rule anchor)
    show "x l2 = ax + (x l0 - ax) * f" by (simp add: l2_def)
    show "y l2 = ay + (y l0 - ay) * f" by (simp add: l2_def)
  qed
  have "x l2 = ax + (x l0 - ax) * f" "y l2 = ay + (y l0 - ay) * f"
       "layer_size l2 = layer_size l0 * f"
    by (simp_all add: l2_def)
  with res pos show ?thesis
    unfolding f_def ax_def ay_def by auto
qed

lemma resize_unclamped_example:
  "hypot (x (startHandlePoint (resizeStart exampleMeasure exampleLayer ''br''))
            - x (anchorPoint (resizeStart exampleMeasure exampleLayer ''br'')))
         (y (startHandlePoint (resizeStart exampleMeasure exampleLayer ''br''))
            - y (anchorPoint (resizeStart exampleMeasure exampleLayer ''br''))) > 1
   \<and> getActiveLayer (resizeMove (resizeStart exampleMeasure exampleLayer ''br'') ''a''
         \<lparr>x = 200, y = 200\<rparr> exampleCanvasState) ''a'' = Some grownLayer
   \<and> getHandleWorldPosition exampleMeasure grownLayer ''tl'' = \<lparr>x = 0, y = 0\<rparr>"
proof -
  let ?i = "resizeStart exampleMeasure exampleLayer ''br''"
  have h2: "mipmaps exampleLayer = Some (exampleRaster # [])" by (simp add: exampleLayer_fields)
  have h3: "width exampleRaster \<noteq> 0" by (simp add: exampleRaster_def)
  have h5: "''br'' \<in> {''tl'', ''tr'', ''bl'', ''br''}" by simp
  have h8: "layer_type exampleLayer = layer_type exampleLayer \<and> rot exampleLayer = rot exampleLayer
            \<and> mipmaps exampleLayer = mipmaps exampleLayer
            \<and> contentFrame exampleLayer = contentFrame exampleLayer" by simp
  have f: "resizeScaleFactor ?i \<lparr>x = 200, y = 200\<rparr> = 2"
    by (simp add: example_scaleFactor)
  have h10: "20 \<le> layer_size exampleLayer * resizeScaleFactor ?i \<lparr>x = 200, y = 200\<rparr>"
    unfolding f by (simp add: exampleLayer_fields)
  have g: "getActiveLayer (resizeMove ?i ''a'' \<lparr>x = 200, y = 200\<rparr> exampleCanvasState) ''a''
             = Some grownLayer"
    unfolding example_resizeMove by (simp add: grownLayer_def)
  from resize_unclamped_keeps_corner [OF exampleLayer_fields(2) h2 h3 exampleLayer_fields(8) h5 refl
         example_active h8 example_initialDist h10]
  have "getHandleWorldPosition exampleMeasure grownLayer (oppositeHandles ''br'') = anchorPoint ?i"
    unfolding g by simp
  then have "getHandleWorldPosition exampleMeasure grownLayer ''tl'' = \<lparr>x = 0, y = 0\<rparr>"
    by (simp add: oppositeHandles_def example_resizeStart)
  with example_initialDist g show ?thesis by simp
qed

text \<open>
  C2 at a pointer position close to the anchor: the corner opposite the dragged handle
  has to stay where it is, with the size scaled by the same factor as the centre. The
  program keeps the size at 20 or more while it scales the centre by the smaller factor.
  Dragging the bottom right handle of the example layer to \<open>(10, 10)\<close> gives the
  factor 1/10, the centre \<open>(5, 5)\<close> and the size 20, not 10, and the top left corner
  moves from \<open>(0, 0)\<close> to \<open>(-5, -5)\<close>.
\<close>

theorem resize_clamped_size_moves_anchor:
  "anchorPoint (resizeStart exampleMeasure exampleLayer ''br'') = \<lparr>x = 0, y = 0\<rparr>
   \<and> getHandleWorldPosition exampleMeasure exampleLayer ''tl'' = \<lparr>x = 0, y = 0\<rparr>
   \<and> resizeScaleFactor (resizeStart exampleMeasure exampleLayer ''br'') \<lparr>x = 10, y = 10\<rparr>
       = 1 / 10
   \<and> layer_size shrunkLayer = 20
   \<and> layer_size shrunkLayer
       \<noteq> layer_size exampleLayer
          * resizeScaleFactor (resizeStart exampleMeasure exampleLayer ''br'') \<lparr>x = 10, y = 10\<rparr>
   \<and> getActiveLayer (resizeMove (resizeStart exampleMeasure exampleLayer ''br'') ''a''
         \<lparr>x = 10, y = 10\<rparr> exampleCanvasState) ''a'' = Some shrunkLayer
   \<and> getHandleWorldPosition exampleMeasure shrunkLayer ''tl'' = \<lparr>x = - 5, y = - 5\<rparr>
   \<and> getHandleWorldPosition exampleMeasure shrunkLayer ''tl''
       \<noteq> anchorPoint (resizeStart exampleMeasure exampleLayer ''br'')"
proof -
  have a: "getHandleWorldPosition exampleMeasure exampleLayer ''tl'' = \<lparr>x = 0, y = 0\<rparr>"
    by (simp add: getHandleWorldPosition_def getLayerMetrics_def frameOffset_def
        handleLocal_def exampleLayer_fields exampleRaster_def Let_def)
  have b: "getActiveLayer (resizeMove (resizeStart exampleMeasure exampleLayer ''br'') ''a''
         \<lparr>x = 10, y = 10\<rparr> exampleCanvasState) ''a'' = Some shrunkLayer"
    unfolding example_resizeMove by (simp add: shrunkLayer_def)
  have c: "getHandleWorldPosition exampleMeasure shrunkLayer ''tl'' = \<lparr>x = - 5, y = - 5\<rparr>"
    by (simp add: getHandleWorldPosition_def getLayerMetrics_def frameOffset_def
        handleLocal_def shrunkLayer_def exampleLayer_fields exampleRaster_def Let_def)
  have d: "anchorPoint (resizeStart exampleMeasure exampleLayer ''br'') = \<lparr>x = 0, y = 0\<rparr>"
    by (simp add: example_resizeStart)
  have f: "resizeScaleFactor (resizeStart exampleMeasure exampleLayer ''br'') \<lparr>x = 10, y = 10\<rparr>
             = 1 / 10"
    by (simp add: example_scaleFactor)
  have s: "layer_size shrunkLayer = 20" by (simp add: shrunkLayer_def)
  show ?thesis
    unfolding a b c d f s by (simp add: exampleLayer_fields)
qed

end
